theory Spec2Isabelle
  imports Complex_Main "HOL-Library.List_Lexorder" "HOL-Library.Char_ord" "HOL-Library.Multiset"
begin

section \<open>Core A: the priority work queue (util/workqueue/priority_queue.go)\<close>

text \<open>
  The queue is a struct guarded by one mutex; every public method runs as one critical
  section. The model is the struct as a record and each critical section as a function
  from the state before to the state after. Items are opaque comparable values (type
  \<open>'a\<close>). The bucket table \<open>map[int][]t\<close> is a total function into lists: a missing
  key and an empty slice both read as \<open>[]\<close>, which is all the code observes
  (\<open>len\<close>, \<open>append\<close>, index 0). Go's \<open>int\<close> is modelled by \<open>int\<close>; the only
  arithmetic is \<open>maxPriority + 1\<close> and the loop counters, which stay in range unless
  \<open>maxPriority\<close> is the largest machine integer. Metrics and condition-variable
  signals carry no state of the queue and are left out.
\<close>

record 'a PriorityType =
  minPriority :: int
  maxPriority :: int
  getPriorityFunc :: "'a \<Rightarrow> int"
  priorityQueue :: "int \<Rightarrow> 'a list"
  dirty :: "'a set"
  processing :: "'a set"
  shuttingDown :: bool
  drain :: bool

definition defaultMinPriority :: int where
  "defaultMinPriority = 0"

definition defaultMaxPriority :: int where
  "defaultMaxPriority = 12"

definition newPriorityQueue :: "int \<Rightarrow> ('a \<Rightarrow> int) \<Rightarrow> 'a PriorityType" where
  "newPriorityQueue maxP f =
     \<lparr>minPriority = defaultMinPriority, maxPriority = maxP, getPriorityFunc = f,
      priorityQueue = (\<lambda>_. []), dirty = {}, processing = {},
      shuttingDown = False, drain = False\<rparr>"

definition NewNamedPriority :: "string \<Rightarrow> int \<Rightarrow> ('a \<Rightarrow> int) \<Rightarrow> 'a PriorityType" where
  "NewNamedPriority name maxP f = newPriorityQueue maxP f"

definition NewPriority :: "'a PriorityType" where
  "NewPriority = NewNamedPriority [] defaultMaxPriority (\<lambda>item. defaultMinPriority)"

definition clipInt :: "int \<Rightarrow> int \<Rightarrow> int \<Rightarrow> int" where
  "clipInt v mn mx = (if v < mn then mn else if v > mx then mx else v)"

definition Add :: "'a PriorityType \<Rightarrow> 'a \<Rightarrow> 'a PriorityType" where
  "Add q item =
     (if shuttingDown q then q
      else if item \<in> dirty q then q
      else let q1 = q\<lparr>dirty := insert item (dirty q)\<rparr> in
        if item \<in> processing q1 then q1
        else let priority = clipInt (getPriorityFunc q1 item) (minPriority q1) (maxPriority q1)
             in q1\<lparr>priorityQueue :=
                    (priorityQueue q1)(priority := priorityQueue q1 priority @ [item])\<rparr>)"

definition lenNoLock :: "'a PriorityType \<Rightarrow> nat" where
  "lenNoLock q = sum_list (map (\<lambda>i. length (priorityQueue q i)) [minPriority q..maxPriority q])"

definition Len :: "'a PriorityType \<Rightarrow> nat" where
  "Len q = lenNoLock q"

text \<open>
  \<open>Get\<close> waits on the condition variable while the queue is empty and not shutting
  down; the call takes effect in the first state in which that loop condition is false.
  \<open>GetWaits\<close> is the outcome in a state where the caller stays blocked (the state is
  unchanged), \<open>GetReturns item shutdown q'\<close> a return of \<open>(item, shutdown)\<close> with
  \<open>None\<close> for \<open>nil\<close>, and \<open>GetPanics\<close> the index-out-of-range panic of reading
  element 0 of an empty bucket.
\<close>

datatype 'a getOutcome = GetWaits | GetPanics | GetReturns "'a option" bool "'a PriorityType"

definition Get :: "'a PriorityType \<Rightarrow> 'a getOutcome" where
  "Get q =
     (if lenNoLock q = 0 \<and> \<not> shuttingDown q then GetWaits
      else if lenNoLock q = 0 then GetReturns None True q
      else let currentPriority =
                 (case find (\<lambda>i. length (priorityQueue q i) > 0)
                            (rev [minPriority q..maxPriority q]) of
                    Some i \<Rightarrow> i
                  | None \<Rightarrow> maxPriority q + 1)
           in case priorityQueue q currentPriority of
                [] \<Rightarrow> GetPanics
              | item # rest \<Rightarrow>
                  GetReturns (Some item) False
                    (q\<lparr>priorityQueue := (priorityQueue q)(currentPriority := rest),
                       processing := insert item (processing q),
                       dirty := dirty q - {item}\<rparr>))"

definition isGetWaits :: "'a getOutcome \<Rightarrow> bool" where
  "isGetWaits r = (case r of GetWaits \<Rightarrow> True | _ \<Rightarrow> False)"

definition Done :: "'a PriorityType \<Rightarrow> 'a \<Rightarrow> 'a PriorityType" where
  "Done q item =
     (let q1 = q\<lparr>processing := processing q - {item}\<rparr> in
      if item \<in> dirty q1
      then let priority = getPriorityFunc q1 item
           in q1\<lparr>priorityQueue :=
                  (priorityQueue q1)(priority := priorityQueue q1 priority @ [item])\<rparr>
      else q1)"

definition setDrain :: "'a PriorityType \<Rightarrow> bool \<Rightarrow> 'a PriorityType" where
  "setDrain q shouldDrain = q\<lparr>drain := shouldDrain\<rparr>"

definition shutdown :: "'a PriorityType \<Rightarrow> 'a PriorityType" where
  "shutdown q = q\<lparr>shuttingDown := True\<rparr>"

definition ShutDown :: "'a PriorityType \<Rightarrow> 'a PriorityType" where
  "ShutDown q = shutdown (setDrain q False)"

definition isProcessing :: "'a PriorityType \<Rightarrow> bool" where
  "isProcessing q = (processing q \<noteq> {})"

definition shouldDrain :: "'a PriorityType \<Rightarrow> bool" where
  "shouldDrain q = drain q"

text \<open>
  \<open>ShutDownWithDrain\<close> sets the two flags and then waits while items are being
  processed and \<open>drain\<close> is still set. \<open>ShutDownWithDrain\<close> is the state after the two
  flag updates; \<open>drainWaits\<close> says whether the caller is still held in the loop.
\<close>

definition ShutDownWithDrain :: "'a PriorityType \<Rightarrow> 'a PriorityType" where
  "ShutDownWithDrain q = shutdown (setDrain q True)"

definition drainWaits :: "'a PriorityType \<Rightarrow> bool" where
  "drainWaits q = (isProcessing q \<and> shouldDrain q)"

definition ShuttingDown :: "'a PriorityType \<Rightarrow> bool" where
  "ShuttingDown q = shuttingDown q"

text \<open>
  Executions. Every critical section is one atomic action; \<open>ShutDown\<close> and
  \<open>ShutDownWithDrain\<close> are each two of them (\<open>setDrain\<close>, then \<open>shutdown\<close>), between
  which other callers may run. A \<open>Get\<close> that would wait, or panic, leaves the state as
  it is. \<open>run\<close> executes a sequence of actions from a state.
\<close>

datatype 'a action = AAdd 'a | AGet | ADone 'a | ASetDrain bool | AShutdown

fun step :: "'a action \<Rightarrow> 'a PriorityType \<Rightarrow> 'a PriorityType" where
  "step (AAdd x) q = Add q x"
| "step AGet q = (case Get q of GetReturns item sd q' \<Rightarrow> q' | _ \<Rightarrow> q)"
| "step (ADone x) q = Done q x"
| "step (ASetDrain b) q = setDrain q b"
| "step AShutdown q = shutdown q"

fun run :: "'a action list \<Rightarrow> 'a PriorityType \<Rightarrow> 'a PriorityType" where
  "run [] q = q"
| "run (a # as) q = run as (step a q)"


text \<open>
  The bucket-range invariant of the data model: only levels between \<open>minPriority\<close> and
  \<open>maxPriority\<close> hold items.
\<close>

definition bucketsInRange :: "'a PriorityType \<Rightarrow> bool" where
  "bucketsInRange q =
     (\<forall>p. priorityQueue q p \<noteq> [] \<longrightarrow> minPriority q \<le> p \<and> p \<le> maxPriority q)"

text \<open>Concrete queues used in the scenarios below.\<close>

definition clippedQueue :: "string PriorityType" where
  "clippedQueue = NewNamedPriority [] 2 (\<lambda>s. if s = ''x'' then 5 else 0)"


definition dirtyShutQueue :: "string PriorityType" where
  "dirtyShutQueue = run [AAdd ''x'', AGet, AAdd ''x'', ASetDrain False, AShutdown] NewPriority"


section \<open>Core B: the strategic merge patch engine (package strategicpatch)\<close>

text \<open>
  The engine works on decoded JSON documents. \<open>json.Unmarshal\<close> produces \<open>nil\<close>,
  \<open>bool\<close>, \<open>float64\<close>, \<open>string\<close>, \<open>[]interface{}\<close> and
  \<open>map[string]interface{}\<close>; these are the constructors of \<open>json\<close>. A number is
  the rational value of its \<open>float64\<close> (negative zero is not told apart from zero).

  A Go map has neither order nor duplicate keys. It is modelled by the list of its
  entries in ascending key order: \<open>m[k]\<close> is \<open>map_of m k\<close>, \<open>m[k] = v\<close> is
  \<open>mapSet k v m\<close>, \<open>delete(m, k)\<close> is \<open>mapDelete k m\<close>. A value is in this form
  at every depth when \<open>canon\<close> holds of it; on such values \<open>reflect.DeepEqual\<close> is
  equality. Go does not fix the order in which \<open>range\<close> visits a map; the model
  visits the entries in key order.

  The Go functions change their arguments in place (\<open>mergeMap\<close> updates \<open>original\<close>,
  \<open>sortScalars\<close> sorts the caller's slice). The model gives the value a function
  returns for arguments that share no structure with one another, as they are after
  \<open>json.Unmarshal\<close>. A \<open>nil\<close> slice or map is not told apart from an empty one.

  Errors are values of \<open>error\<close>; \<open>Panic\<close> stands for a run-time panic (a failed
  type assertion, an index out of range, a method call on a \<open>nil\<close> type, the comparison of
  two maps or two slices with \<open>==\<close>).
\<close>

datatype json =
    JNull
  | JBool bool
  | JNum rat
  | JStr string
  | JArr "json list"
  | JObj "(string \<times> json) list"

type_synonym JSONMap = "(string \<times> json) list"

datatype jkind = KNil | KBool | KFloat64 | KString | KSlice | KMap

fun kindOf :: "json \<Rightarrow> jkind" where
  "kindOf JNull = KNil"
| "kindOf (JBool b) = KBool"
| "kindOf (JNum n) = KFloat64"
| "kindOf (JStr s) = KString"
| "kindOf (JArr xs) = KSlice"
| "kindOf (JObj m) = KMap"

fun kindName :: "jkind \<Rightarrow> string" where
  "kindName KNil = ''nil''"
| "kindName KBool = ''bool''"
| "kindName KFloat64 = ''float64''"
| "kindName KString = ''string''"
| "kindName KSlice = ''slice''"
| "kindName KMap = ''map''"

datatype error =
    ErrBadJSONDoc
  | ErrNoListOfLists
  | ErrBadPatchFormatForPrimitiveList
  | ErrPreconditionFailed JSONMap
  | ErrConflict JSONMap JSONMap
  | ErrInvalidSpecialKey
  | ErrBadArgType string string
  | ErrNoMergeKey JSONMap string
  | ErrBadPatchType json JSONMap
  | ErrNoMergeKeyForType
  | ErrDeleteNoMergeKey
  | ErrMergeListInPatch
  | ErrNotAMap nat
  | ErrElementTypesDiffer
  | ErrNoElements
  | ErrUnknownType
  | ErrInvalidElementType
  | ErrCannotFindMergeKey string JSONMap
  | ErrLookup string
  | Panic

text \<open>
  Package \<open>reflect\<close>, package \<open>fmt\<close> and \<open>LookupPatchMetadata\<close> (package
  \<open>forkedjson\<close> of apimachinery) are not part of the repository; the engine is
  modelled over them as a parameter \<open>E\<close>. For a type descriptor \<open>t\<close>:
  \<open>typeKind E t\<close> is \<open>t.Kind().String()\<close>; \<open>typeElem E t\<close> is \<open>t.Elem()\<close>, \<open>None\<close>
  where \<open>Elem\<close> panics; \<open>LookupPatchMetadata E t field\<close> returns the field's type,
  patch strategy and merge key, or an error; \<open>sprintFloat E\<close> formats a \<open>float64\<close> with
  \<open>%v\<close>.
\<close>

record 't runtime =
  typeKind :: "'t \<Rightarrow> string"
  typeElem :: "'t \<Rightarrow> 't option"
  LookupPatchMetadata :: "'t \<Rightarrow> string \<Rightarrow> error + ('t \<times> string \<times> string)"
  sprintFloat :: "rat \<Rightarrow> string"

definition directiveMarker :: string where
  "directiveMarker = ''$patch''"

definition deleteDirective :: string where
  "deleteDirective = ''delete''"

definition replaceDirective :: string where
  "replaceDirective = ''replace''"

definition mergeDirective :: string where
  "mergeDirective = ''merge''"

definition deleteFromPrimitiveListDirectivePrefix :: string where
  "deleteFromPrimitiveListDirectivePrefix = ''$deleteFromPrimitiveList''"

fun mapSet :: "string \<Rightarrow> json \<Rightarrow> JSONMap \<Rightarrow> JSONMap" where
  "mapSet k v [] = [(k, v)]"
| "mapSet k v ((k', v') # m) =
     (if k < k' then (k, v) # (k', v') # m
      else if k = k' then (k, v) # m
      else (k', v') # mapSet k v m)"

definition mapDelete :: "string \<Rightarrow> JSONMap \<Rightarrow> JSONMap" where
  "mapDelete k m = filter (\<lambda>kv. fst kv \<noteq> k) m"


text \<open>
  \<open>fmt.Sprintf("%v", x)\<close> and \<open>fmt.Sprintf("%s", x)\<close> for a decoded JSON value; a map is
  printed with its keys in ascending order.
\<close>

fun joinWith :: "string \<Rightarrow> string list \<Rightarrow> string" where
  "joinWith sep [] = []"
| "joinWith sep [s] = s"
| "joinWith sep (s # t # ss) = s @ sep @ joinWith sep (t # ss)"

fun sprintV :: "(rat \<Rightarrow> string) \<Rightarrow> json \<Rightarrow> string" where
  "sprintV f JNull = ''<nil>''"
| "sprintV f (JBool b) = (if b then ''true'' else ''false'')"
| "sprintV f (JNum n) = f n"
| "sprintV f (JStr s) = s"
| "sprintV f (JArr xs) = ''['' @ joinWith '' '' (map (sprintV f) xs) @ '']''"
| "sprintV f (JObj m) =
     ''map['' @ joinWith '' '' (map (\<lambda>kv. fst kv @ '':'' @ sprintV f (snd kv)) m) @ '']''"

fun sprintS :: "(rat \<Rightarrow> string) \<Rightarrow> json \<Rightarrow> string" where
  "sprintS f JNull = ''%!s(<nil>)''"
| "sprintS f (JBool b) = ''%!s(bool='' @ (if b then ''true'' else ''false'') @ '')''"
| "sprintS f (JNum n) = ''%!s(float64='' @ f n @ '')''"
| "sprintS f (JStr s) = s"
| "sprintS f (JArr xs) = ''['' @ joinWith '' '' (map (sprintS f) xs) @ '']''"
| "sprintS f (JObj m) =
     ''map['' @ joinWith '' '' (map (\<lambda>kv. fst kv @ '':'' @ sprintS f (snd kv)) m) @ '']''"

definition derefPtr :: "'t runtime \<Rightarrow> 't \<Rightarrow> 't" where
  "derefPtr E t =
     (if typeKind E t = ''ptr'' then (case typeElem E t of Some t' \<Rightarrow> t' | None \<Rightarrow> t) else t)"

definition getTagStructType :: "'t runtime \<Rightarrow> 't option \<Rightarrow> error + 't" where
  "getTagStructType E dataStruct =
     (case dataStruct of
        None \<Rightarrow> Inl (ErrBadArgType ''struct'' ''nil'')
      | Some t0 \<Rightarrow>
          (let t = derefPtr E t0 in
           if typeKind E t \<noteq> ''struct'' then Inl (ErrBadArgType ''struct'' (typeKind E t))
           else Inr t))"

text \<open>Interface equality \<open>a == b\<close>: it panics when both hold a map or both hold a slice.\<close>

definition ifaceEq :: "json \<Rightarrow> json \<Rightarrow> error + bool" where
  "ifaceEq a b =
     (if kindOf a = kindOf b \<and> (kindOf a = KMap \<or> kindOf a = KSlice) then Inl Panic
      else Inr (a = b))"

fun sliceElementTypeFrom :: "jkind option \<Rightarrow> json list \<Rightarrow> error + jkind" where
  "sliceElementTypeFrom prevType [] =
     (case prevType of None \<Rightarrow> Inl ErrNoElements | Some k \<Rightarrow> Inr k)"
| "sliceElementTypeFrom None (v # vs) =
     (if kindOf v = KNil then Inl Panic
      else if kindOf v = KSlice then Inl ErrNoListOfLists
      else sliceElementTypeFrom (Some (kindOf v)) vs)"
| "sliceElementTypeFrom (Some p) (v # vs) =
     (if p \<noteq> kindOf v then Inl ErrElementTypesDiffer
      else sliceElementTypeFrom (Some p) vs)"

definition sliceElementType :: "json list list \<Rightarrow> error + jkind" where
  "sliceElementType slices = sliceElementTypeFrom None (concat slices)"

text \<open>
  \<open>sort.Sort\<close> is called with a \<open>Less\<close> that holds when the string form of the first
  element is at most that of the second. The model is the insertion sort that package
  \<open>sort\<close> runs on short slices: each element in turn moves left past every element whose
  string form is not smaller, which is \<open>sort_key\<close> on the reversed list. On longer slices
  the library may order elements with equal string forms differently.
\<close>

definition sortScalars :: "'t runtime \<Rightarrow> json list \<Rightarrow> json list" where
  "sortScalars E s = sort_key (sprintV (sprintFloat E)) (rev s)"

text \<open>
  \<open>uniqifyScalars\<close>: the two nested index loops. \<open>uniqifyInner\<close> is the inner loop
  for a fixed \<open>i\<close>, from \<open>j\<close> on, with \<open>len\<close> the variable \<open>length\<close> (a Go \<open>int\<close>);
  \<open>uniqifyOuter\<close> is the outer loop from \<open>i\<close> on. It is called on scalars only.
\<close>

function uniqifyInner :: "json list \<Rightarrow> nat \<Rightarrow> nat \<Rightarrow> int \<Rightarrow> json list \<times> int" where
  "uniqifyInner s i j len =
     (if int j \<le> len
      then (if s ! i = s ! j
            then uniqifyInner (take (nat len) (s[j := s ! nat len])) i j (len - 1)
            else uniqifyInner s i (Suc j) len)
      else (s, len))"
  by pat_completeness auto
termination
  by (relation "measure (\<lambda>(s, i, j, len). nat (len + 1 - int j))") auto

declare uniqifyInner.simps [simp del]

lemma uniqifyInner_inv:
  "len + 1 = int (length s) \<Longrightarrow> uniqifyInner s i j len = (s', len') \<Longrightarrow>
     mset s' \<subseteq># mset s \<and> len' \<le> len \<and> len' + 1 = int (length s')"
proof (induction s i j len arbitrary: s' len' rule: uniqifyInner.induct)
  case (1 s i j len)
  show ?case
  proof (cases "int j \<le> len")
    case False
    with "1.prems" show ?thesis by (simp add: uniqifyInner.simps[of s i j len])
  next
    case jl: True
    show ?thesis
    proof (cases "s ! i = s ! j")
      case False
      with jl "1.prems" have "uniqifyInner s i (Suc j) len = (s', len')"
        by (simp add: uniqifyInner.simps[of s i j len])
      from "1.IH"(2)[OF jl False "1.prems"(1) this] show ?thesis by simp
    next
      case True
      let ?n = "nat len"
      let ?s1 = "take ?n (s[j := s ! ?n])"
      from jl have lpos: "0 \<le> len" by simp
      have ls: "length s = Suc ?n" using "1.prems"(1) lpos by simp
      have l1: "len - 1 + 1 = int (length ?s1)" using ls lpos by simp
      from True jl "1.prems" have r: "uniqifyInner ?s1 i j (len - 1) = (s', len')"
        by (simp add: uniqifyInner.simps[of s i j len])
      from "1.IH"(1)[OF jl True l1 r]
      have ih: "mset s' \<subseteq># mset ?s1" "len' \<le> len - 1" "len' + 1 = int (length s')" by auto
      have sne: "s \<noteq> []" using ls by auto
      have sb: "s = butlast s @ [last s]" using sne by simp
      have lb: "length (butlast s) = ?n" using ls by simp
      have la: "s ! ?n = last s" using ls sne by (simp add: last_conv_nth)
      have tb: "take ?n s = butlast s" using ls by (simp add: butlast_conv_take)
      have "mset ?s1 \<subseteq># mset s"
      proof (cases "j = ?n")
        case True
        then have "s[j := s ! ?n] = s" by simp
        then have "?s1 = butlast s" using tb by simp
        then show ?thesis by (metis mset_subset_eq_add_left sb mset_append)
      next
        case False
        with jl have jlt: "j < ?n" by linarith
        have "?s1 = (butlast s)[j := last s]"
          using tb la by (simp add: take_update_swap)
        then have "mset ?s1 = add_mset (last s) (mset (butlast s) - {# butlast s ! j #})"
          using jlt lb by (simp add: mset_update)
        also have "\<dots> \<subseteq># add_mset (last s) (mset (butlast s))"
          by (simp add: diff_subset_eq_self)
        also have "\<dots> = mset s" by (subst (3) sb) simp
        finally show ?thesis .
      qed
      with ih show ?thesis by (auto intro: subset_mset.order_trans)
    qed
  qed
qed


lemma uniqifyInner_le: "snd (uniqifyInner s i j len) \<le> len"
proof (induction s i j len rule: uniqifyInner.induct)
  case (1 s i j len)
  show ?case
  proof (cases "int j \<le> len")
    case False
    then show ?thesis by (simp add: uniqifyInner.simps[of s i j len])
  next
    case jl: True
    show ?thesis
    proof (cases "s ! i = s ! j")
      case True
      with jl "1.IH"(1) show ?thesis by (simp add: uniqifyInner.simps[of s i j len])
    next
      case False
      with jl "1.IH"(2) show ?thesis by (simp add: uniqifyInner.simps[of s i j len])
    qed
  qed
qed

function uniqifyOuter :: "json list \<Rightarrow> nat \<Rightarrow> int \<Rightarrow> json list" where
  "uniqifyOuter s i len =
     (if int i < len
      then (case uniqifyInner s i (Suc i) len of (s', len') \<Rightarrow> uniqifyOuter s' (Suc i) len')
      else s)"
  by pat_completeness auto
termination
  apply (relation "measure (\<lambda>(s, i, len). nat (len - int i))")
   apply simp
  subgoal for s i len x1 x2
    using uniqifyInner_le[of s i "Suc i" len] by (cases "uniqifyInner s i (Suc i) len") auto
  done

declare uniqifyOuter.simps [simp del]

definition uniqifyScalars :: "json list \<Rightarrow> json list" where
  "uniqifyScalars s = uniqifyOuter s 0 (int (length s) - 1)"

definition uniqifyAndSortScalars :: "'t runtime \<Rightarrow> json list \<Rightarrow> json list" where
  "uniqifyAndSortScalars E s = sortScalars E (uniqifyScalars s)"

lemma uniqifyOuter_mset:
  "len + 1 = int (length s) \<Longrightarrow> mset (uniqifyOuter s i len) \<subseteq># mset s"
proof (induction s i len rule: uniqifyOuter.induct)
  case (1 s i len)
  show ?case
  proof (cases "int i < len")
    case False
    then show ?thesis by (simp add: uniqifyOuter.simps[of s i len])
  next
    case True
    obtain s' len' where r: "uniqifyInner s i (Suc i) len = (s', len')"
      by (cases "uniqifyInner s i (Suc i) len") auto
    from uniqifyInner_inv[OF "1.prems" r]
    have inv: "mset s' \<subseteq># mset s" "len' + 1 = int (length s')" by auto
    from "1.IH"[OF True r[symmetric] inv(2)]
    have "mset (uniqifyOuter s' (Suc i) len') \<subseteq># mset s'" .
    with inv(1) True r show ?thesis
      by (auto simp: uniqifyOuter.simps[of s i len] intro: subset_mset.order_trans)
  qed
qed

lemma uniqifyScalars_mset: "mset (uniqifyScalars s) \<subseteq># mset s"
  unfolding uniqifyScalars_def by (rule uniqifyOuter_mset) simp

lemma size_list_mset_mono:
  assumes "mset xs \<subseteq># mset ys"
  shows "size_list f xs \<le> size_list f ys"
proof -
  from assms obtain zs where zs: "mset ys = mset xs + zs"
    by (metis subset_mset.add_diff_inverse)
  have e: "\<And>l. size_list f l = sum_mset (image_mset f (mset l)) + size (mset l)"
    by (simp add: size_list_conv_sum_list sum_mset_sum_list[symmetric])
  have "size_list f xs = sum_mset (image_mset f (mset xs)) + size (mset xs)"
    by (rule e)
  also have "\<dots> \<le> sum_mset (image_mset f (mset ys)) + size (mset ys)"
    by (simp add: zs)
  also have "\<dots> = size_list f ys"
    by (rule e[symmetric])
  finally show ?thesis .
qed

lemma sortScalars_mset [simp]: "mset (sortScalars E s) = mset s"
  by (simp add: sortScalars_def)

lemma uniqifyAndSortScalars_size:
  "size_list f (uniqifyAndSortScalars E s) \<le> size_list f s"
  by (rule size_list_mset_mono) (simp add: uniqifyAndSortScalars_def uniqifyScalars_mset)

text \<open>
  \<open>sortMapsBasedOnField\<close>: the key of an element is the string form of its field (of
  \<open>nil\<close> when the field is missing); an element that is no map makes the type assertion
  of \<open>mapSliceFromSlice\<close> panic. \<open>sortMergeListsByNameArray\<close> is modelled for
  \<open>recurse = false\<close>, the only way the engine calls it (\<open>recurse = true\<close> serves the
  test helper \<open>sortMergeListsByName\<close>); its \<open>elemType\<close> argument is then unused.
\<close>

definition fieldString :: "'t runtime \<Rightarrow> string \<Rightarrow> json \<Rightarrow> string" where
  "fieldString E fieldName e =
     sprintV (sprintFloat E)
       (case e of JObj m \<Rightarrow> (case map_of m fieldName of Some v \<Rightarrow> v | None \<Rightarrow> JNull)
        | _ \<Rightarrow> JNull)"

definition sortMapsBasedOnField :: "'t runtime \<Rightarrow> json list \<Rightarrow> string \<Rightarrow> error + json list" where
  "sortMapsBasedOnField E m fieldName =
     (if list_all (\<lambda>v. kindOf v = KMap) m
      then Inr (sort_key (fieldString E fieldName) (rev m))
      else Inl Panic)"

definition sortMergeListsByNameArray ::
  "'t runtime \<Rightarrow> json list \<Rightarrow> string \<Rightarrow> error + json list" where
  "sortMergeListsByNameArray E s mergeKey =
     (if length s = 0 then Inr s
      else case sliceElementType [s] of
             Inl err \<Rightarrow> Inl err
           | Inr t \<Rightarrow>
               if t \<noteq> KMap then Inr (uniqifyAndSortScalars E s)
               else sortMapsBasedOnField E s mergeKey)"

lemma sortMergeListsByNameArray_size:
  "sortMergeListsByNameArray E s mergeKey = Inr r \<Longrightarrow> size_list f r \<le> size_list f s"
  by (auto simp: sortMergeListsByNameArray_def sortMapsBasedOnField_def
        uniqifyAndSortScalars_size
      intro: size_list_mset_mono split: if_splits sum.splits)

text \<open>
  \<open>diffListsOfScalars\<close>: the two-pointer walk over the two sorted slices;
  \<open>diffListsOfScalarsLoop\<close> takes what is left of them, and the two lists built so far.
  The arguments \<open>ica\<close> and \<open>idel\<close> are \<open>ignoreChangesAndAdditions\<close> and
  \<open>ignoreDeletions\<close>.
\<close>

fun diffListsOfScalarsLoop ::
  "'t runtime \<Rightarrow> bool \<Rightarrow> bool \<Rightarrow> json list \<Rightarrow> json list \<Rightarrow> json list \<Rightarrow> json list
     \<Rightarrow> json list \<times> json list" where
  "diffListsOfScalarsLoop E ica idel [] [] addList deletionList = (addList, deletionList)"
| "diffListsOfScalarsLoop E ica idel [] (m # ms) addList deletionList =
     diffListsOfScalarsLoop E ica idel [] ms
       (if \<not> ica then addList @ [m] else addList) deletionList"
| "diffListsOfScalarsLoop E ica idel (orig # os) [] addList deletionList =
     diffListsOfScalarsLoop E ica idel os [] addList
       (if \<not> idel then deletionList @ [orig] else deletionList)"
| "diffListsOfScalarsLoop E ica idel (orig # os) (m # ms) addList deletionList =
     (let originalString = sprintV (sprintFloat E) orig;
          modifiedString = sprintV (sprintFloat E) m
      in if originalString = modifiedString
         then diffListsOfScalarsLoop E ica idel os ms addList deletionList
         else if originalString > modifiedString
         then diffListsOfScalarsLoop E ica idel (orig # os) ms
                (if \<not> ica then addList @ [m] else addList) deletionList
         else diffListsOfScalarsLoop E ica idel os (m # ms) addList
                (if \<not> idel then deletionList @ [orig] else deletionList))"

definition diffListsOfScalars ::
  "'t runtime \<Rightarrow> json list \<Rightarrow> json list \<Rightarrow> bool \<Rightarrow> bool \<Rightarrow> error + (json list \<times> json list)" where
  "diffListsOfScalars E original modified ica idel =
     Inr (diffListsOfScalarsLoop E ica idel (sortScalars E original) (sortScalars E modified)
            [] [])"

text \<open>
  \<open>deleteElement\<close> is the element \<open>{mergeKey: originalValue, "$patch": "delete"}\<close> that
  \<open>diffListsOfMaps\<close> emits for an item found only in \<open>original\<close>.
\<close>

definition deleteElement :: "string \<Rightarrow> json \<Rightarrow> json" where
  "deleteElement mergeKey originalValue =
     JObj (mapSet directiveMarker (JStr deleteDirective) (mapSet mergeKey originalValue []))"

text \<open>The tail of diffListsOfMaps: the two loops after \<open>loopB\<close>.\<close>

fun deleteRemaining :: "string \<Rightarrow> json list \<Rightarrow> json list \<Rightarrow> error + json list" where
  "deleteRemaining mergeKey [] patch = Inr patch"
| "deleteRemaining mergeKey (orig # os) patch =
     (case orig of
        JObj originalMap \<Rightarrow>
          (case map_of originalMap mergeKey of
             None \<Rightarrow> Inl (ErrNoMergeKey originalMap mergeKey)
           | Some originalValue \<Rightarrow>
               deleteRemaining mergeKey os (patch @ [deleteElement mergeKey originalValue]))
      | JNull \<Rightarrow> Inl Panic
      | _ \<Rightarrow> Inl (ErrBadArgType ''map[string]interface{}'' (kindName (kindOf orig))))"

definition diffListsOfMapsTail ::
  "string \<Rightarrow> bool \<Rightarrow> bool \<Rightarrow> json list \<Rightarrow> json list \<Rightarrow> json list \<Rightarrow> error + json list" where
  "diffListsOfMapsTail mergeKey ica idel os ms patch =
     (case (if \<not> idel then deleteRemaining mergeKey os patch else Inr patch) of
        Inl err \<Rightarrow> Inl err
      | Inr patch' \<Rightarrow> Inr (if \<not> ica then patch' @ ms else patch'))"

definition addNils :: "JSONMap \<Rightarrow> JSONMap \<Rightarrow> JSONMap \<Rightarrow> JSONMap" where
  "addNils original modified patch =
     foldl (\<lambda>p kv. if map_of modified (fst kv) = None then mapSet (fst kv) JNull p else p)
       patch original"

text \<open>
  \<open>setListPatches\<close> stores the two results of \<open>diffLists\<close> in the patch: the additions
  under the key and the deletions under the parallel key, each when not empty.
  \<open>addNils\<close> is the last loop of \<open>diffMaps\<close>, which records a \<open>nil\<close> for every key of
  \<open>original\<close> missing from \<open>modified\<close>.
\<close>

definition setListPatches :: "string \<Rightarrow> json list \<Rightarrow> json list \<Rightarrow> JSONMap \<Rightarrow> JSONMap" where
  "setListPatches key addList deletionList patch =
     (let patch1 = (if length addList > 0 then mapSet key (JArr addList) patch else patch)
      in if length deletionList > 0
         then mapSet (deleteFromPrimitiveListDirectivePrefix @ ''/'' @ key)
                (JArr deletionList) patch1
         else patch1)"

text \<open>
  \<open>diffMaps\<close>, \<open>diffLists\<close> and \<open>diffListsOfMaps\<close> call one another. The loops are
  functions of their own: \<open>diffMapsRange\<close> is the \<open>range\<close> loop of \<open>diffMaps\<close> over
  the entries of \<open>modified\<close> still to visit, with the patch built so far;
  \<open>diffListsOfMapsLoopB\<close> is the outer loop of \<open>diffListsOfMaps\<close> (label \<open>loopB\<close>)
  and \<open>diffListsOfMapsInner\<close> the inner one, each taking the rest of the two sorted
  slices from the current indices on.
\<close>

function (sequential)
    diffMaps :: "'t runtime \<Rightarrow> JSONMap \<Rightarrow> JSONMap \<Rightarrow> 't \<Rightarrow> bool \<Rightarrow> bool \<Rightarrow> error + JSONMap"
and diffMapsRange ::
      "'t runtime \<Rightarrow> JSONMap \<Rightarrow> JSONMap \<Rightarrow> 't \<Rightarrow> bool \<Rightarrow> bool \<Rightarrow> JSONMap \<Rightarrow> error + JSONMap"
and diffLists ::
      "'t runtime \<Rightarrow> json list \<Rightarrow> json list \<Rightarrow> 't \<Rightarrow> string \<Rightarrow> bool \<Rightarrow> bool
         \<Rightarrow> error + (json list \<times> json list)"
and diffListsOfMaps ::
      "'t runtime \<Rightarrow> json list \<Rightarrow> json list \<Rightarrow> 't \<Rightarrow> string \<Rightarrow> bool \<Rightarrow> bool
         \<Rightarrow> error + json list"
and diffListsOfMapsLoopB ::
      "'t runtime \<Rightarrow> 't \<Rightarrow> string \<Rightarrow> bool \<Rightarrow> bool \<Rightarrow> json list \<Rightarrow> json list \<Rightarrow> json list
         \<Rightarrow> error + json list"
and diffListsOfMapsInner ::
      "'t runtime \<Rightarrow> 't \<Rightarrow> string \<Rightarrow> bool \<Rightarrow> bool \<Rightarrow> json list \<Rightarrow> JSONMap \<Rightarrow> json
         \<Rightarrow> json list \<Rightarrow> json list \<Rightarrow> error + json list"
where
  "diffMaps E original modified t ica idel =
     (case diffMapsRange E original modified (derefPtr E t) ica idel [] of
        Inl err \<Rightarrow> Inl err
      | Inr patch \<Rightarrow> Inr (if \<not> idel then addNils original modified patch else patch))"
| "diffMapsRange E original [] t ica idel patch = Inr patch"
| "diffMapsRange E original ((key, modifiedValue) # rest) t ica idel patch =
     (case map_of original key of
        None \<Rightarrow>
          diffMapsRange E original rest t ica idel
            (if \<not> ica then mapSet key modifiedValue patch else patch)
      | Some originalValue \<Rightarrow>
          if key = directiveMarker then
            (case originalValue of
               JStr originalString \<Rightarrow>
                 (case modifiedValue of
                    JStr modifiedString \<Rightarrow>
                      diffMapsRange E original rest t ica idel
                        (if modifiedString \<noteq> originalString
                         then mapSet directiveMarker modifiedValue patch else patch)
                  | _ \<Rightarrow> Inl ErrInvalidSpecialKey)
             | _ \<Rightarrow> Inl ErrInvalidSpecialKey)
          else if kindOf originalValue \<noteq> kindOf modifiedValue then
            diffMapsRange E original rest t ica idel
              (if \<not> ica then mapSet key modifiedValue patch else patch)
          else
            (case modifiedValue of
               JObj modifiedValueTyped \<Rightarrow>
                 (case originalValue of
                    JObj originalValueTyped \<Rightarrow>
                      (case LookupPatchMetadata E t key of
                         Inl err \<Rightarrow>
                           if originalValue = modifiedValue
                           then diffMapsRange E original rest t ica idel patch
                           else Inl err
                       | Inr (fieldType, fieldPatchStrategy, fieldPatchMergeKey) \<Rightarrow>
                           if fieldPatchStrategy = replaceDirective then
                             diffMapsRange E original rest t ica idel
                               (if \<not> ica then mapSet key modifiedValue patch else patch)
                           else
                             (case diffMaps E originalValueTyped modifiedValueTyped fieldType
                                     ica idel of
                                Inl err \<Rightarrow> Inl err
                              | Inr patchValue \<Rightarrow>
                                  diffMapsRange E original rest t ica idel
                                    (if length patchValue > 0
                                     then mapSet key (JObj patchValue) patch else patch)))
                  | _ \<Rightarrow> Inl Panic)
             | JArr modifiedValueTyped \<Rightarrow>
                 (case originalValue of
                    JArr originalValueTyped \<Rightarrow>
                      (case LookupPatchMetadata E t key of
                         Inl err \<Rightarrow>
                           if originalValue = modifiedValue
                           then diffMapsRange E original rest t ica idel patch
                           else Inl err
                       | Inr (fieldType, fieldPatchStrategy, fieldPatchMergeKey) \<Rightarrow>
                           if fieldPatchStrategy = mergeDirective then
                             (case typeElem E fieldType of
                                None \<Rightarrow> Inl Panic
                              | Some elemType \<Rightarrow>
                                  (case diffLists E originalValueTyped modifiedValueTyped elemType
                                          fieldPatchMergeKey ica idel of
                                     Inl err \<Rightarrow> Inl err
                                   | Inr (addList, deletionList) \<Rightarrow>
                                       diffMapsRange E original rest t ica idel
                                         (setListPatches key addList deletionList patch)))
                           else
                             diffMapsRange E original rest t ica idel
                               (if \<not> ica \<and> originalValue \<noteq> modifiedValue
                                then mapSet key modifiedValue patch else patch))
                  | _ \<Rightarrow> Inl Panic)
             | _ \<Rightarrow>
                 diffMapsRange E original rest t ica idel
                   (if \<not> ica \<and> originalValue \<noteq> modifiedValue
                    then mapSet key modifiedValue patch else patch)))"
| "diffLists E original modified t mergeKey ica idel =
     (if length original = 0 then
        (if length modified = 0 \<or> ica then Inr ([], []) else Inr (modified, []))
      else
        (case sliceElementType [original, modified] of
           Inl err \<Rightarrow> Inl err
         | Inr elementType \<Rightarrow>
             if elementType = KMap then
               (case diffListsOfMaps E original modified t mergeKey ica idel of
                  Inl err \<Rightarrow> Inl err
                | Inr patchList \<Rightarrow> Inr (patchList, []))
             else if elementType = KSlice then Inl ErrNoListOfLists
             else diffListsOfScalars E original modified ica idel))"
| "diffListsOfMaps E original modified t mergeKey ica idel =
     (case sortMergeListsByNameArray E original mergeKey of
        Inl err \<Rightarrow> Inl err
      | Inr originalSorted \<Rightarrow>
          (case sortMergeListsByNameArray E modified mergeKey of
             Inl err \<Rightarrow> Inl err
           | Inr modifiedSorted \<Rightarrow>
               diffListsOfMapsLoopB E t mergeKey ica idel originalSorted modifiedSorted []))"
| "diffListsOfMapsLoopB E t mergeKey ica idel os [] patch =
     diffListsOfMapsTail mergeKey ica idel os [] patch"
| "diffListsOfMapsLoopB E t mergeKey ica idel os (m # ms) patch =
     (case m of
        JObj modifiedMap \<Rightarrow>
          (case map_of modifiedMap mergeKey of
             None \<Rightarrow> Inl (ErrNoMergeKey modifiedMap mergeKey)
           | Some modifiedValue \<Rightarrow>
               diffListsOfMapsInner E t mergeKey ica idel os modifiedMap modifiedValue ms patch)
      | JNull \<Rightarrow> Inl Panic
      | _ \<Rightarrow> Inl (ErrBadArgType ''map[string]interface{}'' (kindName (kindOf m))))"
| "diffListsOfMapsInner E t mergeKey ica idel [] modifiedMap modifiedValue ms patch =
     diffListsOfMapsTail mergeKey ica idel [] (JObj modifiedMap # ms) patch"
| "diffListsOfMapsInner E t mergeKey ica idel (orig # os) modifiedMap modifiedValue ms patch =
     (case orig of
        JObj originalMap \<Rightarrow>
          (case map_of originalMap mergeKey of
             None \<Rightarrow> Inl (ErrNoMergeKey originalMap mergeKey)
           | Some originalValue \<Rightarrow>
               (if sprintV (sprintFloat E) originalValue
                     \<ge> sprintV (sprintFloat E) modifiedValue then
                     (if sprintV (sprintFloat E) originalValue
                         = sprintV (sprintFloat E) modifiedValue then
                        (case diffMaps E originalMap modifiedMap t ica idel of
                           Inl err \<Rightarrow> Inl err
                         | Inr patchValue \<Rightarrow>
                             diffListsOfMapsLoopB E t mergeKey ica idel os ms
                               (if length patchValue > 0
                                then patch @ [JObj (mapSet mergeKey modifiedValue patchValue)]
                                else patch))
                      else
                        diffListsOfMapsLoopB E t mergeKey ica idel (orig # os) ms
                          (if \<not> ica then patch @ [JObj modifiedMap] else patch))
                   else
                     diffListsOfMapsInner E t mergeKey ica idel os modifiedMap modifiedValue ms
                       (if \<not> idel then patch @ [deleteElement mergeKey originalValue]
                        else patch)))
      | JNull \<Rightarrow> Inl Panic
      | _ \<Rightarrow> Inl (ErrBadArgType ''map[string]interface{}'' (kindName (kindOf orig))))"
  by pat_completeness auto


termination
  apply (relation "inv_image (less_than <*lex*> less_than <*lex*> less_than)
    (\<lambda>x. case x of
       Inl (Inl (E, original, modified, t, ica, idel)) \<Rightarrow>
         (size_list (size_prod (\<lambda>_. 0) size) modified, 5::nat, 0::nat)
     | Inl (Inr (Inl (E, original, rest, t, ica, idel, patch))) \<Rightarrow>
         (size_list (size_prod (\<lambda>_. 0) size) rest, 4, 0)
     | Inl (Inr (Inr (E, original, modified, t, mergeKey, ica, idel))) \<Rightarrow>
         (size_list size modified, 3, 0)
     | Inr (Inl (E, original, modified, t, mergeKey, ica, idel)) \<Rightarrow>
         (size_list size modified, 2, 0)
     | Inr (Inr (Inl (E, t, mergeKey, ica, idel, os, ms, patch))) \<Rightarrow>
         (size_list size ms, 1, length os)
     | Inr (Inr (Inr (E, t, mergeKey, ica, idel, os, modifiedMap, modifiedValue, ms, patch))) \<Rightarrow>
         (size_list size (JObj modifiedMap # ms), 0, length os))")
  apply (auto dest: sortMergeListsByNameArray_size[where f = size])
  done

text \<open>\<open>strings.HasPrefix\<close> and the key helpers of \<open>mergeMap\<close>.\<close>

definition hasPrefix :: "string \<Rightarrow> string \<Rightarrow> bool" where
  "hasPrefix s p = (take (length p) s = p)"

text \<open>\<open>strings.SplitN(k, "/", 2)\<close>: the part after the first slash, if there is a slash.\<close>

definition afterFirstSlash :: "string \<Rightarrow> string option" where
  "afterFirstSlash k =
     (case dropWhile (\<lambda>c. c \<noteq> CHR ''/'') k of [] \<Rightarrow> None | c # r \<Rightarrow> Some r)"

text \<open>
  \<open>findMapInSliceBasedOnKeyValue\<close> returns the first element whose field \<open>key\<close> equals
  \<open>value\<close>, with its index; \<open>findMapFrom k\<close> is its loop from index \<open>k\<close> on.
\<close>

fun findMapFrom :: "nat \<Rightarrow> json list \<Rightarrow> string \<Rightarrow> json \<Rightarrow> error + (JSONMap \<times> nat) option" where
  "findMapFrom k [] key val = Inr None"
| "findMapFrom k (v # vs) key val =
     (case v of
        JObj typedV \<Rightarrow>
          (case map_of typedV key of
             None \<Rightarrow> findMapFrom (Suc k) vs key val
           | Some valueToMatch \<Rightarrow>
               (case ifaceEq valueToMatch val of
                  Inl err \<Rightarrow> Inl err
                | Inr eq \<Rightarrow> if eq then Inr (Some (typedV, k)) else findMapFrom (Suc k) vs key val))
      | _ \<Rightarrow> Inl (ErrNotAMap k))"

definition findMapInSliceBasedOnKeyValue ::
  "json list \<Rightarrow> string \<Rightarrow> json \<Rightarrow> error + (JSONMap \<times> nat) option" where
  "findMapInSliceBasedOnKeyValue m key val = findMapFrom 0 m key val"

lemma findMapFrom_index:
  "findMapFrom k m key val = Inr (Some (typedV, i)) \<Longrightarrow> k \<le> i \<and> i < k + length m"
proof (induction m arbitrary: k)
  case Nil
  then show ?case by simp
next
  case (Cons v vs)
  then show ?case
    by (fastforce split: json.splits option.splits sum.splits if_splits)
qed

lemma findMapInSlice_index:
  "findMapInSliceBasedOnKeyValue m key val = Inr (Some (typedV, i)) \<Longrightarrow> i < length m"
  using findMapFrom_index[of 0 m key val typedV i]
  by (simp add: findMapInSliceBasedOnKeyValue_def)

text \<open>The \<open>for { ... }\<close> loop of mergeSlice that deletes every element matching a merge key.\<close>

function deleteMatching :: "json list \<Rightarrow> string \<Rightarrow> json \<Rightarrow> error + json list" where
  "deleteMatching original mergeKey mergeValue =
     (case findMapInSliceBasedOnKeyValue original mergeKey mergeValue of
        Inl err \<Rightarrow> Inl err
      | Inr None \<Rightarrow> Inr original
      | Inr (Some found) \<Rightarrow>
          deleteMatching (take (snd found) original @ drop (Suc (snd found)) original)
            mergeKey mergeValue)"
  by pat_completeness auto
termination
  apply (relation "measure (\<lambda>(original, mergeKey, mergeValue). length original)")
   apply simp
  subgoal for original mergeKey mergeValue x found
    using findMapInSlice_index[of original mergeKey mergeValue "fst found" "snd found"]
    by auto
  done

declare deleteMatching.simps [simp del]

text \<open>The first loop of mergeSlice, over the \<open>$patch\<close> elements of the patch list.\<close>

fun mergeSliceSpecials ::
  "string \<Rightarrow> json list \<Rightarrow> json list \<Rightarrow> json list \<Rightarrow> bool
     \<Rightarrow> error + (json list \<times> json list \<times> bool)" where
  "mergeSliceSpecials mergeKey [] original patchWithoutSpecialElements replace =
     Inr (original, patchWithoutSpecialElements, replace)"
| "mergeSliceSpecials mergeKey (v # vs) original patchWithoutSpecialElements replace =
     (case v of
        JObj typedV \<Rightarrow>
          (case map_of typedV directiveMarker of
             Some patchType \<Rightarrow>
               if patchType = JStr deleteDirective then
                 (case map_of typedV mergeKey of
                    Some mergeValue \<Rightarrow>
                      (case deleteMatching original mergeKey mergeValue of
                         Inl err \<Rightarrow> Inl err
                       | Inr original' \<Rightarrow>
                           mergeSliceSpecials mergeKey vs original' patchWithoutSpecialElements
                             replace)
                  | None \<Rightarrow> Inl ErrDeleteNoMergeKey)
               else if patchType = JStr replaceDirective then
                 mergeSliceSpecials mergeKey vs original patchWithoutSpecialElements True
               else if patchType = JStr mergeDirective then Inl ErrMergeListInPatch
               else Inl (ErrBadPatchType patchType typedV)
           | None \<Rightarrow>
               mergeSliceSpecials mergeKey vs original (patchWithoutSpecialElements @ [v])
                 replace)
      | _ \<Rightarrow> Inl Panic)"

lemma mergeSliceSpecials_size:
  "mergeSliceSpecials mergeKey patch original pws replace = Inr (original', pws', replace') \<Longrightarrow>
     size_list f pws' \<le> size_list f pws + size_list f patch"
proof (induction patch arbitrary: original pws replace)
  case Nil
  then show ?case by simp
next
  case (Cons v vs)
  show ?case
  proof (cases v)
    case (JObj typedV)
    show ?thesis
    proof (cases "map_of typedV directiveMarker")
      case None
      with Cons.prems JObj
      have "mergeSliceSpecials mergeKey vs original (pws @ [v]) replace
              = Inr (original', pws', replace')" by simp
      from Cons.IH[OF this] show ?thesis by simp
    next
      case (Some patchType)
      with Cons.prems JObj show ?thesis
        by (auto split: if_splits option.splits sum.splits dest!: Cons.IH)
    qed
  qed (use Cons.prems in auto)
qed

text \<open>\<open>deleteFromSlice\<close>: the walk over the two sorted, duplicate-free slices.\<close>

fun deleteFromSliceLoop ::
  "'t runtime \<Rightarrow> json list \<Rightarrow> json list \<Rightarrow> json list \<Rightarrow> json list" where
  "deleteFromSliceLoop E [] toDelete mergedList = mergedList"
| "deleteFromSliceLoop E (c # cs) [] mergedList = mergedList @ (c # cs)"
| "deleteFromSliceLoop E (c # cs) (d # ds) mergedList =
     (if sprintV (sprintFloat E) c = sprintV (sprintFloat E) d
      then deleteFromSliceLoop E cs (d # ds) mergedList
      else if sprintV (sprintFloat E) c > sprintV (sprintFloat E) d
      then deleteFromSliceLoop E (c # cs) ds mergedList
      else deleteFromSliceLoop E cs (d # ds) (mergedList @ [c]))"

definition deleteFromSlice :: "'t runtime \<Rightarrow> json list \<Rightarrow> json list \<Rightarrow> json list" where
  "deleteFromSlice E current toDelete =
     deleteFromSliceLoop E (uniqifyAndSortScalars E current) (uniqifyAndSortScalars E toDelete) []"

text \<open>
  \<open>mergeMap\<close> and \<open>mergeSlice\<close> call each other. \<open>mergeMapRange\<close> is the \<open>range\<close>
  loop of \<open>mergeMap\<close> over the entries of the patch still to visit; it carries
  \<open>original\<close> and the type \<open>t\<close>, which the loop body may replace by its element type.
  \<open>mergeMapEntry\<close> is the loop body once the key has been resolved (\<open>isDeleteList\<close> set
  and the prefix removed for a parallel deletion list). \<open>mergeSliceLoop\<close> is the second
  loop of \<open>mergeSlice\<close>.
\<close>

function (sequential)
    mergeMap ::
      "'t runtime \<Rightarrow> JSONMap \<Rightarrow> JSONMap \<Rightarrow> 't \<Rightarrow> bool \<Rightarrow> bool \<Rightarrow> error + JSONMap"
and mergeMapRange ::
      "'t runtime \<Rightarrow> JSONMap \<Rightarrow> JSONMap \<Rightarrow> 't \<Rightarrow> bool \<Rightarrow> bool \<Rightarrow> error + JSONMap"
and mergeMapEntry ::
      "'t runtime \<Rightarrow> JSONMap \<Rightarrow> string \<Rightarrow> bool \<Rightarrow> json \<Rightarrow> JSONMap \<Rightarrow> 't \<Rightarrow> bool \<Rightarrow> bool
         \<Rightarrow> error + JSONMap"
and mergeSlice ::
      "'t runtime \<Rightarrow> json list \<Rightarrow> json list \<Rightarrow> 't \<Rightarrow> string \<Rightarrow> bool \<Rightarrow> bool \<Rightarrow> bool
         \<Rightarrow> error + json list"
and mergeSliceLoop ::
      "'t runtime \<Rightarrow> json list \<Rightarrow> json list \<Rightarrow> 't \<Rightarrow> string \<Rightarrow> bool \<Rightarrow> bool
         \<Rightarrow> error + json list"
where
  "mergeMap E original patch t mergeDeleteList ignoreUnmatchedNulls =
     (case map_of patch directiveMarker of
        Some v \<Rightarrow>
          if v = JStr replaceDirective then Inr (mapDelete directiveMarker patch)
          else if v = JStr deleteDirective then Inr []
          else Inl (ErrBadPatchType v patch)
      | None \<Rightarrow> mergeMapRange E original patch t mergeDeleteList ignoreUnmatchedNulls)"
| "mergeMapRange E original [] t mergeDeleteList ignoreUnmatchedNulls = Inr original"
| "mergeMapRange E original ((k, patchV) # rest) t mergeDeleteList ignoreUnmatchedNulls =
     (if hasPrefix k deleteFromPrimitiveListDirectivePrefix then
        (if \<not> mergeDeleteList then
           mergeMapRange E (mapSet k patchV original) rest t mergeDeleteList ignoreUnmatchedNulls
         else
           (case afterFirstSlash k of
              None \<Rightarrow> Inl ErrBadPatchFormatForPrimitiveList
            | Some k' \<Rightarrow>
                mergeMapEntry E original k' True patchV rest t mergeDeleteList
                  ignoreUnmatchedNulls))
      else
        mergeMapEntry E original k False patchV rest t mergeDeleteList ignoreUnmatchedNulls)"
| "mergeMapEntry E original k isDeleteList patchV rest t mergeDeleteList ignoreUnmatchedNulls =
     (if patchV = JNull \<and> ignoreUnmatchedNulls then
        mergeMapRange E (mapDelete k original) rest t mergeDeleteList ignoreUnmatchedNulls
      else if patchV = JNull then
        mergeMapRange E (mapSet k patchV (mapDelete k original)) rest t mergeDeleteList
          ignoreUnmatchedNulls
      else
        (case map_of original k of
           None \<Rightarrow>
             mergeMapRange E (mapSet k patchV original) rest t mergeDeleteList
               ignoreUnmatchedNulls
         | Some originalValue \<Rightarrow>
             if kindOf originalValue = kindOf patchV then
               (case LookupPatchMetadata E (derefPtr E t) k of
                  Inl err \<Rightarrow> Inl err
                | Inr (fieldType, fieldPatchStrategy, fieldPatchMergeKey) \<Rightarrow>
                    (case patchV of
                       JObj typedPatch \<Rightarrow>
                         (case originalValue of
                            JObj typedOriginal \<Rightarrow>
                              if fieldPatchStrategy \<noteq> replaceDirective then
                                (case mergeMap E typedOriginal typedPatch fieldType
                                        mergeDeleteList ignoreUnmatchedNulls of
                                   Inl err \<Rightarrow> Inl err
                                 | Inr merged \<Rightarrow>
                                     mergeMapRange E (mapSet k (JObj merged) original) rest
                                       (derefPtr E t) mergeDeleteList ignoreUnmatchedNulls)
                              else
                                mergeMapRange E (mapSet k patchV original) rest (derefPtr E t)
                                  mergeDeleteList ignoreUnmatchedNulls
                          | _ \<Rightarrow> Inl Panic)
                     | JArr typedPatch \<Rightarrow>
                         (case originalValue of
                            JArr typedOriginal \<Rightarrow>
                              if fieldPatchStrategy = mergeDirective then
                                (case typeElem E fieldType of
                                   None \<Rightarrow> Inl Panic
                                 | Some elemType \<Rightarrow>
                                     (case mergeSlice E typedOriginal typedPatch elemType
                                             fieldPatchMergeKey mergeDeleteList isDeleteList
                                             ignoreUnmatchedNulls of
                                        Inl err \<Rightarrow> Inl err
                                      | Inr merged \<Rightarrow>
                                          mergeMapRange E (mapSet k (JArr merged) original) rest
                                            (derefPtr E t) mergeDeleteList ignoreUnmatchedNulls))
                              else
                                mergeMapRange E (mapSet k patchV original) rest (derefPtr E t)
                                  mergeDeleteList ignoreUnmatchedNulls
                          | _ \<Rightarrow> Inl Panic)
                     | _ \<Rightarrow>
                         mergeMapRange E (mapSet k patchV original) rest (derefPtr E t)
                           mergeDeleteList ignoreUnmatchedNulls))
             else
               mergeMapRange E (mapSet k patchV original) rest (derefPtr E t) mergeDeleteList
                 ignoreUnmatchedNulls))"
| "mergeSlice E original patch elemType mergeKey mergeDeleteList isDeleteList
     ignoreUnmatchedNulls =
     (if length original = 0 \<and> length patch = 0 then Inr original
      else
        (case sliceElementType [original, patch] of
           Inl err \<Rightarrow> Inl err
         | Inr t \<Rightarrow>
             if t \<noteq> KMap then
               (if mergeDeleteList \<and> isDeleteList then Inr (deleteFromSlice E original patch)
                else Inr (uniqifyScalars (original @ patch)))
             else if mergeKey = [] then Inl ErrNoMergeKeyForType
             else
               (case mergeSliceSpecials mergeKey patch original [] False of
                  Inl err \<Rightarrow> Inl err
                | Inr (original', patchWithoutSpecialElements, replace) \<Rightarrow>
                    if replace then Inr patchWithoutSpecialElements
                    else mergeSliceLoop E original' patchWithoutSpecialElements elemType
                           mergeKey mergeDeleteList ignoreUnmatchedNulls)))"
| "mergeSliceLoop E original [] elemType mergeKey mergeDeleteList ignoreUnmatchedNulls =
     Inr original"
| "mergeSliceLoop E original (v # vs) elemType mergeKey mergeDeleteList ignoreUnmatchedNulls =
     (case v of
        JObj typedV \<Rightarrow>
          (case map_of typedV mergeKey of
             None \<Rightarrow> Inl (ErrNoMergeKey typedV mergeKey)
           | Some mergeValue \<Rightarrow>
               (case findMapInSliceBasedOnKeyValue original mergeKey mergeValue of
                  Inl err \<Rightarrow> Inl err
                | Inr None \<Rightarrow>
                    mergeSliceLoop E (original @ [v]) vs elemType mergeKey mergeDeleteList
                      ignoreUnmatchedNulls
                | Inr (Some found) \<Rightarrow>
                    (case mergeMap E (fst found) typedV elemType mergeDeleteList
                            ignoreUnmatchedNulls of
                       Inl err \<Rightarrow> Inl err
                     | Inr mergedMaps \<Rightarrow>
                         mergeSliceLoop E (original[snd found := JObj mergedMaps]) vs elemType
                           mergeKey mergeDeleteList ignoreUnmatchedNulls)))
      | _ \<Rightarrow> Inl Panic)"
  by pat_completeness auto
termination
  apply (relation "inv_image (less_than <*lex*> less_than)
    (\<lambda>x. case x of
       Inl (Inl (E, original, patch, t, mdl, iun)) \<Rightarrow>
         (size_list (size_prod (\<lambda>_. 0) size) patch, 3::nat)
     | Inl (Inr (E, original, rest, t, mdl, iun)) \<Rightarrow>
         (size_list (size_prod (\<lambda>_. 0) size) rest, 2)
     | Inr (Inl (E, original, k, isDeleteList, patchV, rest, t, mdl, iun)) \<Rightarrow>
         (size_list (size_prod (\<lambda>_. 0) size) ((k, patchV) # rest), 1)
     | Inr (Inr (Inl (E, original, patch, elemType, mergeKey, mdl, isDeleteList, iun))) \<Rightarrow>
         (size_list size patch, 1)
     | Inr (Inr (Inr (E, original, patch, elemType, mergeKey, mdl, iun))) \<Rightarrow>
         (size_list size patch, 0))")
  apply (auto dest: mergeSliceSpecials_size[where f = size and pws = "[]"])
  done

text \<open>
  Conflict detection. A Go result \<open>(true, err)\<close> with an error is \<open>Inl err\<close>; a result
  \<open>(b, nil)\<close> is \<open>Inr b\<close> (the code returns \<open>true\<close> with every error).
  \<open>sliceOfMapsToMapOfMapsFrom\<close> is the loop of \<open>sliceOfMapsToMapOfMaps\<close> over the rest
  of the slice.
\<close>

fun sliceOfMapsToMapOfMapsFrom ::
  "'t runtime \<Rightarrow> json list \<Rightarrow> json list \<Rightarrow> string \<Rightarrow> JSONMap \<Rightarrow> error + JSONMap" where
  "sliceOfMapsToMapOfMapsFrom E slice [] mergeKey result = Inr result"
| "sliceOfMapsToMapOfMapsFrom E slice (v # vs) mergeKey result =
     (case v of
        JObj typedValue \<Rightarrow>
          (case map_of typedValue mergeKey of
             None \<Rightarrow> Inl (ErrCannotFindMergeKey mergeKey typedValue)
           | Some mergeValue \<Rightarrow>
               sliceOfMapsToMapOfMapsFrom E slice vs mergeKey
                 (mapSet (sprintS (sprintFloat E) mergeValue) v result))
      | _ \<Rightarrow> Inl ErrInvalidElementType)"

definition sliceOfMapsToMapOfMaps :: "'t runtime \<Rightarrow> json list \<Rightarrow> string \<Rightarrow> error + JSONMap" where
  "sliceOfMapsToMapOfMaps E slice mergeKey = sliceOfMapsToMapOfMapsFrom E slice slice mergeKey []"

lemma mapSet_values_mset: "mset (map snd (mapSet k v m)) \<subseteq># add_mset v (mset (map snd m))"
proof (induction m)
  case Nil
  then show ?case by simp
next
  case (Cons a m)
  obtain k' v' where a: "a = (k', v')" by (cases a)
  show ?case
  proof (cases "k < k'")
    case True
    with a show ?thesis by simp
  next
    case False
    show ?thesis
    proof (cases "k = k'")
      case True
      with a show ?thesis by simp
    next
      case ne: False
      have "mset (map snd (mapSet k v (a # m))) = add_mset v' (mset (map snd (mapSet k v m)))"
        using False ne a by simp
      also have "\<dots> \<subseteq># add_mset v' (add_mset v (mset (map snd m)))"
        using Cons.IH by simp
      also have "\<dots> = add_mset v (mset (map snd (a # m)))" using a by simp
      finally show ?thesis .
    qed
  qed
qed

lemma sliceOfMapsToMapOfMapsFrom_mset:
  "sliceOfMapsToMapOfMapsFrom E slice vs mergeKey result = Inr m \<Longrightarrow>
     mset (map snd m) \<subseteq># mset (map snd result) + mset vs"
proof (induction vs arbitrary: result)
  case Nil
  then show ?case by simp
next
  case (Cons v vs)
  from Cons.prems obtain typedValue mergeValue where
    v: "v = JObj typedValue" "map_of typedValue mergeKey = Some mergeValue"
       "sliceOfMapsToMapOfMapsFrom E slice vs mergeKey
          (mapSet (sprintS (sprintFloat E) mergeValue) v result) = Inr m"
    by (auto split: json.splits option.splits)
  from Cons.IH[OF v(3)]
  have "mset (map snd m)
          \<subseteq># mset (map snd (mapSet (sprintS (sprintFloat E) mergeValue) v result)) + mset vs" .
  also have "\<dots> \<subseteq># add_mset v (mset (map snd result)) + mset vs"
    using mapSet_values_mset[of "sprintS (sprintFloat E) mergeValue" v result]
    by (simp add: subset_mset.add_right_mono)
  finally show ?case by simp
qed

definition valuesSize :: "JSONMap \<Rightarrow> nat" where
  "valuesSize m = size_list size (map snd m)"

lemma valuesSize_Cons: "valuesSize ((k, v) # rest) = Suc (size v + valuesSize rest)"
  by (simp add: valuesSize_def)

lemma sliceOfMapsToMapOfMaps_size:
  assumes "sliceOfMapsToMapOfMaps E slice mergeKey = Inr m"
  shows "valuesSize m \<le> size_list size slice"
proof -
  have "mset (map snd m) \<subseteq># mset slice"
    using sliceOfMapsToMapOfMapsFrom_mset[of E slice slice mergeKey "[]" m] assms
    by (simp add: sliceOfMapsToMapOfMaps_def)
  then show ?thesis unfolding valuesSize_def by (rule size_list_mset_mono)
qed

lemma uniqifyAndSortScalars_size_less:
  "size_list size (uniqifyAndSortScalars E s) \<noteq> size_list size s \<Longrightarrow>
     size_list size (uniqifyAndSortScalars E s) < size_list size s"
  using uniqifyAndSortScalars_size[of size E s] by simp

text \<open>
  \<open>mapsHaveConflicts\<close> and \<open>mapsOfMapsHaveConflicts\<close> are \<open>range\<close> loops over the
  left map, given here by the entries still to visit; \<open>slicesHaveConflictsLoop\<close> is the
  index loop at the end of \<open>slicesHaveConflicts\<close>, which panics when the right slice is
  the shorter one.
\<close>

function (sequential)
    mergingMapFieldsHaveConflicts ::
      "'t runtime \<Rightarrow> json \<Rightarrow> json \<Rightarrow> 't \<Rightarrow> string \<Rightarrow> string \<Rightarrow> error + bool"
and mapsHaveConflicts :: "'t runtime \<Rightarrow> JSONMap \<Rightarrow> JSONMap \<Rightarrow> 't \<Rightarrow> error + bool"
and slicesHaveConflicts ::
      "'t runtime \<Rightarrow> json list \<Rightarrow> json list \<Rightarrow> 't \<Rightarrow> string \<Rightarrow> string \<Rightarrow> error + bool"
and slicesHaveConflictsLoop :: "'t runtime \<Rightarrow> json list \<Rightarrow> json list \<Rightarrow> 't \<Rightarrow> error + bool"
and mapsOfMapsHaveConflicts :: "'t runtime \<Rightarrow> JSONMap \<Rightarrow> JSONMap \<Rightarrow> 't \<Rightarrow> error + bool"
where
  "mergingMapFieldsHaveConflicts E left right fieldType fieldPatchStrategy fieldPatchMergeKey =
     (case left of
        JObj leftType \<Rightarrow>
          (case right of
             JObj rightType \<Rightarrow>
               (case map_of leftType directiveMarker of
                  Some leftMarker \<Rightarrow>
                    (case map_of rightType directiveMarker of
                       Some rightMarker \<Rightarrow>
                         (case ifaceEq leftMarker rightMarker of
                            Inl err \<Rightarrow> Inl err
                          | Inr eq \<Rightarrow>
                              if \<not> eq then Inr True
                              else if fieldPatchStrategy = replaceDirective then Inr False
                              else mapsHaveConflicts E leftType rightType fieldType)
                     | None \<Rightarrow> Inr True)
                | None \<Rightarrow>
                    (case map_of rightType directiveMarker of
                       Some rightMarker \<Rightarrow> Inr True
                     | None \<Rightarrow>
                         if fieldPatchStrategy = replaceDirective then Inr False
                         else mapsHaveConflicts E leftType rightType fieldType))
           | _ \<Rightarrow> Inr True)
      | JArr leftType \<Rightarrow>
          (case right of
             JArr rightType \<Rightarrow>
               slicesHaveConflicts E leftType rightType fieldType fieldPatchStrategy
                 fieldPatchMergeKey
           | _ \<Rightarrow> Inr True)
      | _ \<Rightarrow> Inr (left \<noteq> right))"
| "mapsHaveConflicts E [] typedRight structType = Inr False"
| "mapsHaveConflicts E ((key, leftValue) # rest) typedRight structType =
     (if key \<noteq> directiveMarker then
        (case map_of typedRight key of
           Some rightValue \<Rightarrow>
             (case LookupPatchMetadata E structType key of
                Inl err \<Rightarrow> Inl err
              | Inr (fieldType, fieldPatchStrategy, fieldPatchMergeKey) \<Rightarrow>
                  (case mergingMapFieldsHaveConflicts E leftValue rightValue fieldType
                          fieldPatchStrategy fieldPatchMergeKey of
                     Inl err \<Rightarrow> Inl err
                   | Inr hasConflicts \<Rightarrow>
                       if hasConflicts then Inr True
                       else mapsHaveConflicts E rest typedRight structType))
         | None \<Rightarrow> mapsHaveConflicts E rest typedRight structType)
      else mapsHaveConflicts E rest typedRight structType)"
| "slicesHaveConflicts E typedLeft typedRight fieldType fieldPatchStrategy fieldPatchMergeKey =
     (case sliceElementType [typedLeft, typedRight] of
        Inl err \<Rightarrow> Inl err
      | Inr elementType \<Rightarrow>
          (case typeElem E fieldType of
             None \<Rightarrow> Inl Panic
           | Some valueType \<Rightarrow>
               if fieldPatchStrategy = mergeDirective then
                 (if elementType \<noteq> KMap then Inr False
                  else
                    (case sliceOfMapsToMapOfMaps E typedLeft fieldPatchMergeKey of
                       Inl err \<Rightarrow> Inl err
                     | Inr leftMap \<Rightarrow>
                         (case sliceOfMapsToMapOfMaps E typedRight fieldPatchMergeKey of
                            Inl err \<Rightarrow> Inl err
                          | Inr rightMap \<Rightarrow>
                              mapsOfMapsHaveConflicts E leftMap rightMap valueType)))
               else if length typedLeft \<noteq> length typedRight then Inr True
               else if elementType \<noteq> KMap then
                 slicesHaveConflictsLoop E (uniqifyAndSortScalars E typedLeft)
                   (uniqifyAndSortScalars E typedRight) valueType
               else slicesHaveConflictsLoop E typedLeft typedRight valueType))"
| "slicesHaveConflictsLoop E [] typedRight valueType = Inr False"
| "slicesHaveConflictsLoop E (l # ls) [] valueType = Inl Panic"
| "slicesHaveConflictsLoop E (l # ls) (r # rs) valueType =
     (case mergingMapFieldsHaveConflicts E l r valueType [] [] of
        Inl err \<Rightarrow> Inl err
      | Inr hasConflicts \<Rightarrow>
          if hasConflicts then Inr True else slicesHaveConflictsLoop E ls rs valueType)"
| "mapsOfMapsHaveConflicts E [] typedRight structType = Inr False"
| "mapsOfMapsHaveConflicts E ((key, leftValue) # rest) typedRight structType =
     (case map_of typedRight key of
        Some rightValue \<Rightarrow>
          (case mergingMapFieldsHaveConflicts E leftValue rightValue structType [] [] of
             Inl err \<Rightarrow> Inl err
           | Inr hasConflicts \<Rightarrow>
               if hasConflicts then Inr True
               else mapsOfMapsHaveConflicts E rest typedRight structType)
      | None \<Rightarrow> mapsOfMapsHaveConflicts E rest typedRight structType)"
  by pat_completeness auto
termination
  apply (relation "inv_image (less_than <*lex*> less_than)
    (\<lambda>x. case x of
       Inl (Inl (E, left, right, fieldType, strategy, mergeKey)) \<Rightarrow> (size left, 3::nat)
     | Inl (Inr (E, typedLeft, typedRight, structType)) \<Rightarrow>
         (size_list (size_prod (\<lambda>_. 0) size) typedLeft, 0)
     | Inr (Inl (E, typedLeft, typedRight, fieldType, strategy, mergeKey)) \<Rightarrow>
         (size_list size typedLeft, 2)
     | Inr (Inr (Inl (E, typedLeft, typedRight, valueType))) \<Rightarrow>
         (size_list size typedLeft, 1)
     | Inr (Inr (Inr (E, typedLeft, typedRight, structType))) \<Rightarrow>
         (valuesSize typedLeft, 1))")
  apply (auto simp: valuesSize_Cons dest: sliceOfMapsToMapOfMaps_size
           intro: uniqifyAndSortScalars_size_less)
  done

text \<open>
  The entry points. The functions on bytes take the decoded documents here:
  \<open>unmarshalMap\<close> is \<open>json.Unmarshal\<close> into a \<open>map[string]interface{}\<close> for text that
  parses (an object gives its map, \<open>null\<close> leaves the map empty, anything else is an
  error); text that does not parse and empty input are outside the model, and
  \<open>json.Marshal\<close> of the result is the object itself. \<open>dataStruct\<close> is \<open>None\<close> for
  \<open>nil\<close>. Preconditions are predicates on the patch.
\<close>

definition CreateTwoWayMergeMapPatch ::
  "'t runtime \<Rightarrow> JSONMap \<Rightarrow> JSONMap \<Rightarrow> 't option \<Rightarrow> (JSONMap \<Rightarrow> bool) list \<Rightarrow> error + JSONMap" where
  "CreateTwoWayMergeMapPatch E original modified dataStruct fns =
     (case getTagStructType E dataStruct of
        Inl err \<Rightarrow> Inl err
      | Inr t \<Rightarrow>
          (case diffMaps E original modified t False False of
             Inl err \<Rightarrow> Inl err
           | Inr patchMap \<Rightarrow>
               if list_all (\<lambda>fn. fn patchMap) fns then Inr patchMap
               else Inl (ErrPreconditionFailed patchMap)))"

definition StrategicMergeMapPatch ::
  "'t runtime \<Rightarrow> JSONMap \<Rightarrow> JSONMap \<Rightarrow> 't option \<Rightarrow> error + JSONMap" where
  "StrategicMergeMapPatch E original patch dataStruct =
     (case getTagStructType E dataStruct of
        Inl err \<Rightarrow> Inl err
      | Inr t \<Rightarrow> mergeMap E original patch t True True)"

definition MergingMapsHaveConflicts ::
  "'t runtime \<Rightarrow> JSONMap \<Rightarrow> JSONMap \<Rightarrow> 't option \<Rightarrow> error + bool" where
  "MergingMapsHaveConflicts E left right dataStruct =
     (case getTagStructType E dataStruct of
        Inl err \<Rightarrow> Inl err
      | Inr t \<Rightarrow> mergingMapFieldsHaveConflicts E (JObj left) (JObj right) t [] [])"

definition unmarshalMap :: "json \<Rightarrow> error + JSONMap" where
  "unmarshalMap doc =
     (case doc of JObj m \<Rightarrow> Inr m | JNull \<Rightarrow> Inr [] | _ \<Rightarrow> Inl ErrBadJSONDoc)"

definition CreateTwoWayMergePatch ::
  "'t runtime \<Rightarrow> json \<Rightarrow> json \<Rightarrow> 't option \<Rightarrow> (JSONMap \<Rightarrow> bool) list \<Rightarrow> error + json" where
  "CreateTwoWayMergePatch E original modified dataStruct fns =
     (case unmarshalMap original of
        Inl err \<Rightarrow> Inl err
      | Inr originalMap \<Rightarrow>
          (case unmarshalMap modified of
             Inl err \<Rightarrow> Inl err
           | Inr modifiedMap \<Rightarrow>
               (case CreateTwoWayMergeMapPatch E originalMap modifiedMap dataStruct fns of
                  Inl err \<Rightarrow> Inl err
                | Inr patchMap \<Rightarrow> Inr (JObj patchMap))))"

definition StrategicMergePatch ::
  "'t runtime \<Rightarrow> json \<Rightarrow> json \<Rightarrow> 't option \<Rightarrow> error + json" where
  "StrategicMergePatch E original patch dataStruct =
     (case unmarshalMap original of
        Inl err \<Rightarrow> Inl err
      | Inr originalMap \<Rightarrow>
          (case unmarshalMap patch of
             Inl err \<Rightarrow> Inl err
           | Inr patchMap \<Rightarrow>
               (case StrategicMergeMapPatch E originalMap patchMap dataStruct of
                  Inl err \<Rightarrow> Inl err
                | Inr result \<Rightarrow> Inr (JObj result))))"

definition CreateThreeWayMergePatch ::
  "'t runtime \<Rightarrow> json \<Rightarrow> json \<Rightarrow> json \<Rightarrow> 't option \<Rightarrow> bool \<Rightarrow> (JSONMap \<Rightarrow> bool) list
     \<Rightarrow> error + json" where
  "CreateThreeWayMergePatch E original modified current dataStruct overwrite fns =
     (case unmarshalMap original of
        Inl err \<Rightarrow> Inl err
      | Inr originalMap \<Rightarrow>
     (case unmarshalMap modified of
        Inl err \<Rightarrow> Inl err
      | Inr modifiedMap \<Rightarrow>
     (case unmarshalMap current of
        Inl err \<Rightarrow> Inl err
      | Inr currentMap \<Rightarrow>
     (case getTagStructType E dataStruct of
        Inl err \<Rightarrow> Inl err
      | Inr t \<Rightarrow>
     (case diffMaps E currentMap modifiedMap t False True of
        Inl err \<Rightarrow> Inl err
      | Inr deltaMap \<Rightarrow>
     (case diffMaps E originalMap modifiedMap t True False of
        Inl err \<Rightarrow> Inl err
      | Inr deletionsMap \<Rightarrow>
     (case mergeMap E deletionsMap deltaMap t False False of
        Inl err \<Rightarrow> Inl err
      | Inr patchMap \<Rightarrow>
          if \<not> list_all (\<lambda>fn. fn patchMap) fns then Inl (ErrPreconditionFailed patchMap)
          else if \<not> overwrite then
            (case diffMaps E originalMap currentMap t False False of
               Inl err \<Rightarrow> Inl err
             | Inr changedMap \<Rightarrow>
                 (case MergingMapsHaveConflicts E patchMap changedMap dataStruct of
                    Inl err \<Rightarrow> Inl err
                  | Inr hasConflicts \<Rightarrow>
                      if hasConflicts then Inl (ErrConflict patchMap changedMap)
                      else Inr (JObj patchMap)))
          else Inr (JObj patchMap))))))))"

text \<open>
  Two schemas for the scenarios. \<open>trivialSchema\<close> has one struct type, whose every field
  has neither patch strategy nor merge key. \<open>podSchema\<close> has a struct \<open>Pod\<close> with the
  merge-strategy lists \<open>containers\<close> (merge key \<open>name\<close>) and \<open>finalizers\<close>. Neither
  scenario formats a number; \<open>showDigits\<close> is the \<open>%v\<close> form of the whole numbers from 0
  to 999999.
\<close>

fun showDigits :: "nat \<Rightarrow> nat \<Rightarrow> string" where
  "showDigits 0 n = []"
| "showDigits (Suc fuel) n =
     (if n < 10 then [char_of (48 + n)]
      else showDigits fuel (n div 10) @ [char_of (48 + n mod 10)])"

definition sprintWhole :: "rat \<Rightarrow> string" where
  "sprintWhole r = showDigits 6 (nat \<lfloor>r\<rfloor>)"

definition trivialSchema :: "unit runtime" where
  "trivialSchema =
     \<lparr>typeKind = (\<lambda>t. ''struct''), typeElem = (\<lambda>t. None),
      LookupPatchMetadata = (\<lambda>t k. Inr ((), [], [])),
      sprintFloat = sprintWhole\<rparr>"

definition podSchema :: "string runtime" where
  "podSchema =
     \<lparr>typeKind = (\<lambda>t. if t = ''Pod'' \<or> t = ''Container'' then ''struct''
                       else if t = ''[]Container'' \<or> t = ''[]string'' then ''slice''
                       else ''string''),
      typeElem = (\<lambda>t. if t = ''[]Container'' then Some ''Container''
                       else if t = ''[]string'' then Some ''string'' else None),
      LookupPatchMetadata = (\<lambda>t k.
         if t = ''Pod'' \<and> k = ''containers'' then Inr (''[]Container'', ''merge'', ''name'')
         else if t = ''Pod'' \<and> k = ''finalizers'' then Inr (''[]string'', ''merge'', [])
         else if t = ''Container'' \<and> (k = ''name'' \<or> k = ''image'') then Inr (''string'', [], [])
         else Inl (ErrLookup k)),
      sprintFloat = sprintWhole\<rparr>"



subsection \<open>Notions used in the statements\<close>

text \<open>The key of the parallel list that holds the deletions from a list of scalars.\<close>

definition parallelKey :: "string \<Rightarrow> string" where
  "parallelKey key = deleteFromPrimitiveListDirectivePrefix @ ''/'' @ key"




















section \<open>Core A: facts and claims\<close>

subsection \<open>Basic facts about the queue operations\<close>

lemmas queue_defs = NewPriority_def NewNamedPriority_def newPriorityQueue_def Add_def Get_def
  Done_def lenNoLock_def clipInt_def defaultMinPriority_def defaultMaxPriority_def Let_def
  setDrain_def shutdown_def ShutDown_def ShutDownWithDrain_def






lemma Get_buckets_shrink:
  assumes "Get q = GetReturns item sd q'"
  shows "\<exists>pre. priorityQueue q p = pre @ priorityQueue q' p"
  using assms
  by (auto simp: Get_def Let_def split: if_splits list.splits option.splits)

lemma shuttingDown_step: "shuttingDown q \<Longrightarrow> shuttingDown (step a q)"
  by (cases a) (auto simp: queue_defs split: getOutcome.splits list.splits if_splits)

lemma shuttingDown_run: "shuttingDown q \<Longrightarrow> shuttingDown (run as q)"
  by (induction as arbitrary: q) (auto simp: shuttingDown_step)

text \<open>
  \<open>Add\<close> clips the priority, so it keeps every item in a bucket within range (on a queue
  with \<open>minPriority \<le> maxPriority\<close>); \<open>Done\<close> keeps the range only when the priority
  function's value is itself within range.
\<close>

lemma clipInt_range: "mn \<le> mx \<Longrightarrow> mn \<le> clipInt v mn mx \<and> clipInt v mn mx \<le> mx"
  by (simp add: clipInt_def)

lemma Add_bucketsInRange:
  assumes "minPriority q \<le> maxPriority q" "bucketsInRange q"
  shows "bucketsInRange (Add q x)"
  using assms clipInt_range[of "minPriority q" "maxPriority q" "getPriorityFunc q x"]
  by (auto simp: bucketsInRange_def Add_def Let_def)

lemma Done_bucketsInRange:
  assumes "minPriority q \<le> getPriorityFunc q x" "getPriorityFunc q x \<le> maxPriority q"
    "bucketsInRange q"
  shows "bucketsInRange (Done q x)"
  using assms by (auto simp: bucketsInRange_def Done_def Let_def)


subsection \<open>Claims about the queue\<close>

text \<open>
  C4. Claimed: once \<open>ShutDown\<close> (or \<open>ShutDownWithDrain\<close>) has set \<open>shuttingDown\<close>,
  no later \<open>Add\<close>, \<open>Get\<close> or \<open>Done\<close> inserts an item into a bucket. The code does
  not guard \<open>Done\<close>: an item re-added while it was being processed is still dirty at
  shutdown, and its \<open>Done\<close> appends it to a bucket afterwards (the drain test of the
  repository relies on this). Here \<open>"x"\<close> is added, taken, re-added, the queue is shut
  down with every bucket empty, and \<open>Done "x"\<close> then puts \<open>"x"\<close> into bucket 0.
\<close>

theorem Done_inserts_after_ShutDown:
  "shuttingDown dirtyShutQueue \<and> lenNoLock dirtyShutQueue = 0 \<and>
   priorityQueue dirtyShutQueue 0 = [] \<and>
   priorityQueue (Done dirtyShutQueue ''x'') 0 = [''x'']"
  by code_simp

text \<open>
  C4, as the code has it: in every execution, once \<open>shuttingDown\<close> is set it stays set
  whatever actions follow; from then on \<open>Add\<close> changes nothing, \<open>Get\<close> only removes
  (each bucket afterwards is a suffix of the bucket before), and \<open>Done x\<close> changes the
  buckets in one way only: when \<open>x\<close> is dirty it appends \<open>x\<close> to the bucket of its
  priority.
\<close>

theorem shutdown_bucket_insertions:
  assumes "shuttingDown q"
  shows "shuttingDown (run ops q) \<and>
         Add (run ops q) x = run ops q \<and>
         (\<forall>item sd q'. Get (run ops q) = GetReturns item sd q' \<longrightarrow>
            (\<forall>p. \<exists>pre. priorityQueue (run ops q) p = pre @ priorityQueue q' p)) \<and>
         (\<forall>p. priorityQueue (Done (run ops q) x) p =
            (if x \<in> dirty (run ops q) \<and> p = getPriorityFunc (run ops q) x
             then priorityQueue (run ops q) p @ [x] else priorityQueue (run ops q) p))"
proof -
  have sd: "shuttingDown (run ops q)" using assms by (rule shuttingDown_run)
  have a: "Add (run ops q) x = run ops q" using sd by (simp add: Add_def)
  have g: "\<forall>item sd q'. Get (run ops q) = GetReturns item sd q' \<longrightarrow>
            (\<forall>p. \<exists>pre. priorityQueue (run ops q) p = pre @ priorityQueue q' p)"
    using Get_buckets_shrink by blast
  have d: "\<forall>p. priorityQueue (Done (run ops q) x) p =
            (if x \<in> dirty (run ops q) \<and> p = getPriorityFunc (run ops q) x
             then priorityQueue (run ops q) p @ [x] else priorityQueue (run ops q) p)"
    by (simp add: Done_def Let_def)
  from sd a g d show ?thesis by blast
qed

theorem shutdown_bucket_insertions_witness:
  "shuttingDown dirtyShutQueue \<and>
   shuttingDown (run [AAdd ''y'', AGet] dirtyShutQueue) \<and>
   Add (run [AAdd ''y'', AGet] dirtyShutQueue) ''x'' = run [AAdd ''y'', AGet] dirtyShutQueue \<and>
   priorityQueue (Done (run [AAdd ''y'', AGet] dirtyShutQueue) ''x'') 0 = [''x'']"
proof -
  have h: "shuttingDown dirtyShutQueue" by code_simp
  have e: "''x'' \<in> dirty (run [AAdd ''y'', AGet] dirtyShutQueue) \<and>
           getPriorityFunc (run [AAdd ''y'', AGet] dirtyShutQueue) ''x'' = 0 \<and>
           priorityQueue (run [AAdd ''y'', AGet] dirtyShutQueue) 0 = []"
    by code_simp
  show ?thesis
    using h e shutdown_bucket_insertions[OF h, of "[AAdd ''y'', AGet]" "''x''"] by simp
qed

text \<open>
  C5. Claimed: every item in a bucket sits at a level between \<open>minPriority\<close> and
  \<open>maxPriority\<close>, for every priority function, and both the enqueue of \<open>Add\<close> and the
  re-enqueue of \<open>Done\<close> keep it so. \<open>Add\<close> clips the priority (lemma
  \<open>Add_bucketsInRange\<close>); \<open>Done\<close> uses the priority function's value as it
  is. On a queue with \<open>maxPriority = 2\<close> and priority 5 for \<open>"x"\<close>: after \<open>Add\<close>, \<open>Get\<close>,
  \<open>Add\<close>, \<open>Done\<close> the item sits in bucket 5, outside the range, where neither \<open>Len\<close>
  counts it nor \<open>Get\<close> finds it.
\<close>

theorem Done_requeues_unclipped:
  "maxPriority clippedQueue = 2 \<and>
   priorityQueue (run [AAdd ''x''] clippedQueue) 2 = [''x''] \<and>
   priorityQueue (run [AAdd ''x'', AGet, AAdd ''x'', ADone ''x''] clippedQueue) 5 = [''x''] \<and>
   lenNoLock (run [AAdd ''x'', AGet, AAdd ''x'', ADone ''x''] clippedQueue) = 0 \<and>
   isGetWaits (Get (run [AAdd ''x'', AGet, AAdd ''x'', ADone ''x''] clippedQueue))"
  by code_simp




text \<open>
  C7. Claimed: whenever the queue is non-empty, \<open>Get\<close> returns the head of the
  highest-priority non-empty bucket. \<open>Get\<close> scans the levels from \<open>maxPriority\<close> down to
  \<open>minPriority\<close> only (lemma \<open>Get_nonempty\<close> is what it does there), and \<open>Done\<close>
  can leave an item in a bucket above \<open>maxPriority\<close>, as under C5. On the queue with
  \<open>maxPriority = 2\<close> and priority 5 for \<open>"x"\<close>: once \<open>"x"\<close> has been re-queued by \<open>Done\<close>
  and \<open>"y"\<close> (priority 0) added, bucket 5 holds \<open>"x"\<close> and bucket 0 holds \<open>"y"\<close>, and
  \<open>Get\<close> returns \<open>"y"\<close>; the \<open>Get\<close> after that waits although \<open>"x"\<close> is still queued.
\<close>

theorem Get_passes_over_unclipped_bucket:
  "priorityQueue (run [AAdd ''x'', AGet, AAdd ''x'', ADone ''x'', AAdd ''y''] clippedQueue) 5
     = [''x''] \<and>
   priorityQueue (run [AAdd ''x'', AGet, AAdd ''x'', ADone ''x'', AAdd ''y''] clippedQueue) 0
     = [''y''] \<and>
   (case Get (run [AAdd ''x'', AGet, AAdd ''x'', ADone ''x'', AAdd ''y''] clippedQueue) of
      GetReturns item sd q' \<Rightarrow> item = Some ''y'' \<and> \<not> sd \<and> isGetWaits (Get q')
    | _ \<Rightarrow> False)"
  by code_simp

text \<open>
  The scenario of C7 on a queue that has the levels 0 to 2: \<open>"lo"\<close> (priority 0) is added
  before \<open>"hi"\<close> (priority 2); the first \<open>Get\<close> returns \<open>"hi"\<close>, the next one \<open>"lo"\<close>.
\<close>

lemma priority_order_scenario:
  "(case Get (run [AAdd ''lo'', AAdd ''hi'']
               (NewNamedPriority [] 2 (\<lambda>s. if s = ''hi'' then 2 else 0))) of
      GetReturns item sd q' \<Rightarrow> item = Some ''hi'' \<and> \<not> sd \<and>
        (case Get q' of GetReturns item2 sd2 q2 \<Rightarrow> item2 = Some ''lo'' \<and> \<not> sd2
         | _ \<Rightarrow> False)
    | _ \<Rightarrow> False)"
  by code_simp




section \<open>Core B: facts and claims\<close>

declare diffMaps.simps [simp del] diffLists.simps [simp del] diffListsOfMaps.simps [simp del]

subsection \<open>Maps as sorted association lists\<close>

lemma mapSet_append:
  "\<forall>k' \<in> fst ` set m. k' < k \<Longrightarrow> mapSet k v m = m @ [(k, v)]"
proof (induction m)
  case Nil
  then show ?case by simp
next
  case (Cons a m)
  obtain k' v' where a: "a = (k', v')" by (cases a)
  from Cons.prems a have "k' < k" by simp
  with Cons a show ?case by auto
qed




lemma sorted_keys_distinct: "sorted_wrt (<) (map fst m) \<Longrightarrow> distinct (map fst (m :: JSONMap))"
  by (simp add: strict_sorted_iff)


subsection \<open>Diffing a document against itself\<close>






lemma setListPatches_empty [simp]: "setListPatches key [] [] patch = patch"
  by (simp add: setListPatches_def)










subsection \<open>The keys of a patch\<close>

lemma setListPatches_cases:
  "setListPatches key a d patch = patch \<or>
   (\<exists>v. setListPatches key a d patch = mapSet key v patch) \<or>
   (\<exists>v. setListPatches key a d patch = mapSet (parallelKey key) v patch) \<or>
   (\<exists>v w. setListPatches key a d patch = mapSet (parallelKey key) v (mapSet key w patch))"
  by (auto simp: setListPatches_def parallelKey_def Let_def)






subsection \<open>Merging into an empty map\<close>

declare mergeMap.simps [simp del] mergeMapEntry.simps [simp del] mergeSlice.simps [simp del]

lemma mapDelete_absent: "k \<notin> fst ` set m \<Longrightarrow> mapDelete k m = m"
  by (induction m) (auto simp: mapDelete_def)

lemma mergeMapRange_additive:
  "sorted_wrt (<) (map fst (acc @ rest)) \<Longrightarrow>
     mergeMapRange E acc rest t False False = Inr (acc @ rest)"
proof (induction rest arbitrary: acc t)
  case Nil
  then show ?case by simp
next
  case (Cons e rest)
  obtain k v where e: "e = (k, v)" by (cases e)
  have lt: "\<forall>k' \<in> fst ` set acc. k' < k"
    using Cons.prems e by (auto simp: sorted_wrt_append)
  then have nin: "k \<notin> fst ` set acc" by auto
  have ms: "mapSet k v acc = acc @ [(k, v)]" using lt by (rule mapSet_append)
  have s': "sorted_wrt (<) (map fst ((acc @ [(k, v)]) @ rest))" using Cons.prems e by simp
  have ih: "\<And>t'. mergeMapRange E (acc @ [(k, v)]) rest t' False False = Inr (acc @ e # rest)"
    using Cons.IH[OF s'] e by simp
  have none: "map_of acc k = None" using nin by (simp add: map_of_eq_None_iff)
  show ?case
  proof (cases "v = JNull")
    case True
    with ms ih none mapDelete_absent[OF nin] show ?thesis
      by (simp add: e mergeMapEntry.simps)
  next
    case False
    with ms ih none show ?thesis
      by (simp add: e mergeMapEntry.simps)
  qed
qed

lemma mergeMap_into_empty:
  assumes "sorted_wrt (<) (map fst patch)" "map_of patch directiveMarker = None"
  shows "mergeMap E [] patch t False False = Inr patch"
  using assms mergeMapRange_additive[of "[]" patch E t]
  by (simp add: mergeMap.simps)

lemma map_of_mapDelete: "map_of (mapDelete k m) = (map_of m)(k := None)"
  by (induction m) (auto simp: mapDelete_def)

subsection \<open>Claims about the patch engine\<close>




text \<open>
  C2. For original \<open>{"replicas":1}\<close>, modified \<open>{"replicas":3}\<close> and current
  \<open>{"replicas":5}\<close>, under every schema that is a struct type and whose lookup of the
  field \<open>replicas\<close> succeeds (the trivial schema is one), \<open>CreateThreeWayMergePatch\<close>
  returns the conflict error, carrying the patch \<open>{"replicas":3}\<close> and the drift
  \<open>{"replicas":5}\<close>, when \<open>overwrite\<close> is false, and the patch \<open>{"replicas":3}\<close>
  when \<open>overwrite\<close> is true.
\<close>

theorem threeWay_replicas:
  assumes "getTagStructType E dataStruct = Inr t"
    and "LookupPatchMetadata E t ''replicas'' = Inr md"
  shows "CreateThreeWayMergePatch E (JObj [(''replicas'', JNum 1)]) (JObj [(''replicas'', JNum 3)])
           (JObj [(''replicas'', JNum 5)]) dataStruct False []
           = Inl (ErrConflict [(''replicas'', JNum 3)] [(''replicas'', JNum 5)]) \<and>
         CreateThreeWayMergePatch E (JObj [(''replicas'', JNum 1)]) (JObj [(''replicas'', JNum 3)])
           (JObj [(''replicas'', JNum 5)]) dataStruct True []
           = Inr (JObj [(''replicas'', JNum 3)])"
proof -
  obtain ft st mk where md: "md = (ft, st, mk)" by (cases md)
  have delta: "diffMaps E [(''replicas'', JNum 5)] [(''replicas'', JNum 3)] t False True
                 = Inr [(''replicas'', JNum 3)]"
    by (simp add: diffMaps.simps directiveMarker_def)
  have dels: "diffMaps E [(''replicas'', JNum 1)] [(''replicas'', JNum 3)] t True False = Inr []"
    by (simp add: diffMaps.simps addNils_def directiveMarker_def)
  have changed: "diffMaps E [(''replicas'', JNum 1)] [(''replicas'', JNum 5)] t False False
                   = Inr [(''replicas'', JNum 5)]"
    by (simp add: diffMaps.simps addNils_def directiveMarker_def)
  have merge: "mergeMap E [] [(''replicas'', JNum 3)] t False False = Inr [(''replicas'', JNum 3)]"
    by (rule mergeMap_into_empty) (simp_all add: directiveMarker_def)
  have conf: "MergingMapsHaveConflicts E [(''replicas'', JNum 3)] [(''replicas'', JNum 5)] dataStruct
                = Inr True"
    using assms md
    by (simp add: MergingMapsHaveConflicts_def directiveMarker_def replaceDirective_def)
  show ?thesis
    using assms(1) delta dels changed merge conf
    by (simp add: CreateThreeWayMergePatch_def unmarshalMap_def)
qed

theorem threeWay_replicas_witness:
  "getTagStructType trivialSchema (Some ()) = Inr () \<and>
   LookupPatchMetadata trivialSchema () ''replicas'' = Inr ((), [], []) \<and>
   CreateThreeWayMergePatch trivialSchema (JObj [(''replicas'', JNum 1)])
     (JObj [(''replicas'', JNum 3)]) (JObj [(''replicas'', JNum 5)]) (Some ()) False []
     = Inl (ErrConflict [(''replicas'', JNum 3)] [(''replicas'', JNum 5)]) \<and>
   CreateThreeWayMergePatch trivialSchema (JObj [(''replicas'', JNum 1)])
     (JObj [(''replicas'', JNum 3)]) (JObj [(''replicas'', JNum 5)]) (Some ()) True []
     = Inr (JObj [(''replicas'', JNum 3)])"
proof -
  have h1: "getTagStructType trivialSchema (Some ()) = Inr ()" by code_simp
  have h2: "LookupPatchMetadata trivialSchema () ''replicas'' = Inr ((), [], [])"
    by (simp add: trivialSchema_def)
  show ?thesis using h1 h2 threeWay_replicas[OF h1 h2] by simp
qed

text \<open>
  C8. For every original map and every patch map that has the key \<open>$patch\<close>, with value
  \<open>v\<close>: if \<open>v\<close> is \<open>"replace"\<close>, \<open>mergeMap\<close> returns the patch without that key (every
  other key keeps its value); if \<open>v\<close> is \<open>"delete"\<close>, it returns the empty object; for any
  other \<open>v\<close>, \<open>"merge"\<close> included, it returns the unknown-patch-type error and no
  result.
\<close>

theorem mergeMap_directive:
  assumes "map_of patch directiveMarker = Some v"
  shows "(v = JStr replaceDirective \<longrightarrow>
            mergeMap E original patch t mergeDeleteList ignoreUnmatchedNulls
              = Inr (mapDelete directiveMarker patch) \<and>
            map_of (mapDelete directiveMarker patch) = (map_of patch)(directiveMarker := None)) \<and>
         (v = JStr deleteDirective \<longrightarrow>
            mergeMap E original patch t mergeDeleteList ignoreUnmatchedNulls = Inr []) \<and>
         (v \<noteq> JStr replaceDirective \<and> v \<noteq> JStr deleteDirective \<longrightarrow>
            mergeMap E original patch t mergeDeleteList ignoreUnmatchedNulls
              = Inl (ErrBadPatchType v patch))"
  using assms
  by (simp add: mergeMap.simps map_of_mapDelete replaceDirective_def deleteDirective_def)


theorem mergeMap_directive_witness:
  "map_of [(''$patch'', JStr ''replace''), (''a'', JNum 1)] directiveMarker
     = Some (JStr ''replace'') \<and>
   mergeMap trivialSchema [(''b'', JNum 2)] [(''$patch'', JStr ''replace''), (''a'', JNum 1)] ()
     True True = Inr [(''a'', JNum 1)] \<and>
   map_of [(''$patch'', JStr ''delete''), (''a'', JNum 1)] directiveMarker
     = Some (JStr ''delete'') \<and>
   mergeMap trivialSchema [(''b'', JNum 2)] [(''$patch'', JStr ''delete''), (''a'', JNum 1)] ()
     True True = Inr [] \<and>
   map_of [(''$patch'', JStr ''merge''), (''a'', JNum 1)] directiveMarker
     = Some (JStr ''merge'') \<and>
   mergeMap trivialSchema [(''b'', JNum 2)] [(''$patch'', JStr ''merge''), (''a'', JNum 1)] ()
     True True = Inl (ErrBadPatchType (JStr ''merge'')
                        [(''$patch'', JStr ''merge''), (''a'', JNum 1)])"
proof -
  have r: "map_of [(''$patch'', JStr ''replace''), (''a'', JNum 1)] directiveMarker
             = Some (JStr ''replace'')" by (simp add: directiveMarker_def)
  have d: "map_of [(''$patch'', JStr ''delete''), (''a'', JNum 1)] directiveMarker
             = Some (JStr ''delete'')" by (simp add: directiveMarker_def)
  have m: "map_of [(''$patch'', JStr ''merge''), (''a'', JNum 1)] directiveMarker
             = Some (JStr ''merge'')" by (simp add: directiveMarker_def)
  show ?thesis
    using r d m
      mergeMap_directive[OF r, of trivialSchema "[(''b'', JNum 2)]" "()" True True]
      mergeMap_directive[OF d, of trivialSchema "[(''b'', JNum 2)]" "()" True True]
      mergeMap_directive[OF m, of trivialSchema "[(''b'', JNum 2)]" "()" True True]
    by (simp add: replaceDirective_def deleteDirective_def mapDelete_def directiveMarker_def)
qed

subsection \<open>Conflicts and the keys of one side only\<close>

declare mergingMapFieldsHaveConflicts.simps [simp del] slicesHaveConflicts.simps [simp del]


lemma map_of_filter_None:
  "map_of m k = None \<Longrightarrow> map_of (filter Q m) k = None"
  by (induction m) (auto split: if_splits)










subsection \<open>Round trip of a two-way patch\<close>






















text \<open>
  A list with the merge strategy is diffed and merged as a set, so that the order of
  \<open>b\<close> is not restored either: for \<open>a = {"finalizers":["b","a"]}\<close> and
  \<open>b = {"finalizers":["a","b"]}\<close> under the pod schema the patch is empty and applying
  it leaves \<open>a\<close>.
\<close>

lemma roundTrip_merge_list_order:
  "CreateTwoWayMergePatch podSchema
     (JObj [(''finalizers'', JArr [JStr ''b'', JStr ''a''])])
     (JObj [(''finalizers'', JArr [JStr ''a'', JStr ''b''])]) (Some ''Pod'') []
     = Inr (JObj []) \<and>
   StrategicMergePatch podSchema
     (JObj [(''finalizers'', JArr [JStr ''b'', JStr ''a''])]) (JObj []) (Some ''Pod'')
     = Inr (JObj [(''finalizers'', JArr [JStr ''b'', JStr ''a''])])"
  by code_simp



end
